theory Spec2Isabelle
  imports Complex_Main "HOL-Library.Sublist"
begin

section \<open>The account intelligence pipeline of sovereign-prep\<close>

text \<open>
  A shallow embedding of the merger, the account analyzer, the participant profiler, the
  goal generator, the talking-point generator, the competitor-mention extractor and the
  assembler that sequences them.

  Conventions of the embedding.
  \<^item> A JavaScript string is a \<open>string\<close>: a list of code units below 256.
  \<^item> A \<open>Date\<close> is its time value, an \<open>int\<close> of milliseconds since the epoch; a date
    string is modelled by the time value it parses to. The Invalid Date, whose time value
    is NaN, is not a value of the model, except where the code throws on it (the Slack
    timestamps): a source record of the model is one whose dates are valid dates, and every
    statement below is a statement about such records.
  \<^item> The wall clock \<open>new Date()\<close> is the parameter \<open>now\<close>, the same for every read of
    one run.
  \<^item> \<open>Math.random\<close> is the parameter \<open>rnd\<close>: \<open>rnd k\<close> is the six-character suffix
    that \<open>Math.random().toString(36).slice(2, 8)\<close> yields at the k-th call of a run.
  \<^item> A JavaScript \<open>Map\<close> is an association list in insertion order.
  \<^item> \<open>Array.prototype.sort\<close> is stable, so it is \<open>sort_key\<close>.
  \<^item> A \<open>number\<close> that counts or measures whole units is an \<open>int\<close> or a \<open>nat\<close>.
  \<^item> Logging is dropped.
\<close>

subsection \<open>Strings\<close>

definition toLowerCase_char :: "char \<Rightarrow> char" where
  "toLowerCase_char c =
     (let n = (of_char c :: nat)
      in if (65 \<le> n \<and> n \<le> 90) \<or> (192 \<le> n \<and> n \<le> 222 \<and> n \<noteq> 215)
         then char_of (n + 32) else c)"

definition toLowerCase :: "string \<Rightarrow> string" where
  "toLowerCase s = map toLowerCase_char s"

text \<open>\<open>s.includes(sub)\<close>: \<open>sub\<close> occurs in \<open>s\<close> as a contiguous block.\<close>

fun str_includes :: "string \<Rightarrow> string \<Rightarrow> bool" where
  "str_includes [] sub = (sub = [])"
| "str_includes (c # cs) sub = (prefix sub (c # cs) \<or> str_includes cs sub)"

text \<open>\<open>s.indexOf(sub)\<close>, with \<open>None\<close> for the result -1.\<close>

fun indexOf :: "string \<Rightarrow> string \<Rightarrow> nat option" where
  "indexOf [] sub = (if sub = [] then Some 0 else None)"
| "indexOf (c # cs) sub =
     (if prefix sub (c # cs) then Some 0
      else map_option Suc (indexOf cs sub))"

text \<open>\<open>s.slice(a, b)\<close> for indices \<open>0 \<le> a\<close> and \<open>0 \<le> b\<close>.\<close>

definition slice :: "string \<Rightarrow> nat \<Rightarrow> nat \<Rightarrow> string" where
  "slice s a b = take (b - a) (drop a s)"

text \<open>\<open>xs.join(sep)\<close>.\<close>

fun join :: "string \<Rightarrow> string list \<Rightarrow> string" where
  "join sep [] = []"
| "join sep [x] = x"
| "join sep (x # y # ys) = x @ sep @ join sep (y # ys)"

definition digit_char :: "nat \<Rightarrow> char" where
  "digit_char d = char_of (48 + d)"

text \<open>The decimal numeral of a natural number, as a template literal prints it.\<close>

fun showNat :: "nat \<Rightarrow> string" where
  "showNat n = (if n < 10 then [digit_char n] else showNat (n div 10) @ [digit_char (n mod 10)])"

declare showNat.simps [simp del]

definition showInt :: "int \<Rightarrow> string" where
  "showInt i = (if i < 0 then CHR ''-'' # showNat (nat (- i)) else showNat (nat i))"

text \<open>A numeral padded with zeros on the left to at least \<open>w\<close> digits.\<close>

definition padNat :: "nat \<Rightarrow> nat \<Rightarrow> string" where
  "padNat w n = replicate (w - length (showNat n)) CHR ''0'' @ showNat n"

subsection \<open>The data model\<close>

text \<open>
  The records carry the fields that the modelled functions read or write. An optional
  field is an \<open>option\<close>; an optional array that the code only reads through \<open>?? []\<close>
  is a plain list.
\<close>

datatype Momentum = Accelerating | Stable | Stalling | AtRisk

datatype ActionItemStatus = Pending | Completed | Overdue

datatype ActionItemOwner = Ours | Theirs

datatype EventType = EvCall | EvEmail | EvMeeting | EvNote | EvStageChange | EvActionItem

datatype Severity = High | Medium | Low

datatype RiskType = RtTimeline | RtStakeholder | RtBudget | RtTechnical | RtCompetitive | RtOther

datatype ParticipantRole =
  Champion | Blocker | EconomicBuyer | TechnicalEvaluator | DecisionMaker | Influencer | Unknown

datatype InfluenceLevel = InfHigh | InfMedium | InfLow

datatype InteractionType = ItCall | ItEmail | ItMeeting | ItSlack

datatype Velocity = VelHigh | VelMedium | VelLow

record Contact =
  ct_id :: string
  ct_email :: string
  ct_name :: string
  ct_title :: "string option"

record TimelineEvent =
  te_id :: string
  te_date :: int
  te_type :: EventType
  te_title :: string
  te_description :: "string option"
  te_participants :: "string list option"
  te_duration :: "int option"
  te_transcriptId :: "string option"

record ActionItem =
  ai_id :: string
  ai_description :: string
  ai_owner :: ActionItemOwner
  ai_assignee :: "string option"
  ai_dueDate :: "int option"
  ai_createdDate :: int
  ai_status :: ActionItemStatus
  ai_source :: "string option"
  ai_daysOverdue :: "int option"

record Risk =
  rk_id :: string
  rk_type :: RiskType
  rk_severity :: Severity
  rk_description :: string
  rk_detectedDate :: int
  rk_mitigationSuggestion :: "string option"

record Interaction =
  ia_id :: string
  ia_date :: int
  ia_type :: InteractionType
  ia_title :: string
  ia_duration :: "int option"
  ia_summary :: "string option"

text \<open>\<open>Partial<Participant>\<close>, the value type of the participant registry.\<close>

record PartialParticipant =
  pp_email :: "string option"
  pp_name :: "string option"
  pp_company :: "string option"
  pp_title :: "string option"
  pp_role :: "ParticipantRole option"
  pp_influence :: "InfluenceLevel option"
  pp_linkedInUrl :: "string option"
  pp_background :: "string option"
  pp_previousInteractions :: "Interaction list option"
  pp_communicationNotes :: "string option"
  pp_whatTheyCareAbout :: "string list option"
  pp_lastInteractionDate :: "int option"
  pp_totalInteractions :: "int option"

record Participant =
  p_email :: string
  p_name :: string
  p_company :: string
  p_title :: string
  p_role :: ParticipantRole
  p_influence :: InfluenceLevel
  p_linkedInUrl :: "string option"
  p_background :: "string option"
  p_previousInteractions :: "Interaction list"
  p_communicationNotes :: "string option"
  p_whatTheyCareAbout :: "string list option"
  p_lastInteractionDate :: "int option"
  p_totalInteractions :: "int option"

record InternalParticipant =
  ip_email :: string
  ip_name :: string
  ip_role :: string

text \<open>\<open>Partial<Account>\<close>, the account part of the merged bundle.\<close>

record PartialAccount =
  pa_id :: "string option"
  pa_name :: "string option"
  pa_domain :: "string option"
  pa_dealStage :: "string option"
  pa_dealValue :: "int option"
  pa_closeDate :: "int option"
  pa_lastContactDate :: "int option"
  pa_contacts :: "Contact list"
  pa_timeline :: "TimelineEvent list"
  pa_openActionItems :: "ActionItem list"
  pa_risks :: "Risk list"

record Account =
  ac_id :: string
  ac_name :: string
  ac_domain :: string
  ac_dealStage :: string
  ac_dealValue :: int
  ac_closeDate :: "int option"
  ac_daysInStage :: int
  ac_lastContactDate :: int
  ac_momentum :: Momentum
  ac_contacts :: "Contact list"
  ac_timeline :: "TimelineEvent list"
  ac_openActionItems :: "ActionItem list"
  ac_risks :: "Risk list"
  ac_notes :: "string option"
  ac_industry :: "string option"
  ac_employeeCount :: "int option"
  ac_headquarters :: "string option"

record Attendee =
  at_email :: string
  at_name :: "string option"

record Meeting =
  mt_id :: string
  mt_title :: string
  mt_datetime :: int
  mt_duration :: int
  mt_attendees :: "Attendee list"

subsection \<open>The source records\<close>

text \<open>
  \<open>fai_dueDate\<close> is the time value that the due-date string parses to, \<open>None\<close> when the
  string is absent or empty. \<open>sm_timestamp\<close> is the time value that the timestamp string
  parses to, \<open>None\<close> when it does not parse.
\<close>

record FirefliesActionItem =
  fai_text :: string
  fai_assignee :: "string option"
  fai_dueDate :: "int option"

record FirefliesTranscript =
  ft_id :: string
  ft_title :: string
  ft_date :: int
  ft_duration :: int
  ft_participants :: "string list"
  ft_summary :: "string option"
  ft_actionItems :: "FirefliesActionItem list"

record SlackMessage =
  sm_channel :: string
  sm_user :: string
  sm_text :: string
  sm_timestamp :: "int option"

datatype Sentiment = Positive | Negative | Neutral

record SlackMention =
  sn_context :: string
  sn_sentiment :: "Sentiment option"

record CalendarAttendee =
  ca_email :: string
  ca_displayName :: "string option"

record CalendarEvent =
  ce_id :: string
  ce_summary :: string
  ce_description :: "string option"
  ce_start :: int
  ce_end :: int
  ce_attendees :: "CalendarAttendee list"

record FirefliesData =
  transcripts :: "FirefliesTranscript list"

record SlackData =
  mentions :: "SlackMention list"
  messages :: "SlackMessage list"

record CalendarData =
  events :: "CalendarEvent list"

record MergeOptions =
  accountName :: string
  accountDomain :: string
  daysOfHistory :: "int option"

record MergedData =
  md_account :: PartialAccount
  md_participants :: "(string \<times> PartialParticipant) list"
  md_timeline :: "TimelineEvent list"
  md_actionItems :: "ActionItem list"
  md_meetings :: "Meeting list"

datatype error = RangeError

subsection \<open>The merger\<close>

text \<open>\<open>Map.get\<close> and \<open>Map.set\<close>: a key that is already present keeps its position.\<close>

definition map_get :: "('k \<times> 'v) list \<Rightarrow> 'k \<Rightarrow> 'v option" where
  "map_get m k = map_of m k"

fun map_set :: "('k \<times> 'v) list \<Rightarrow> 'k \<Rightarrow> 'v \<Rightarrow> ('k \<times> 'v) list" where
  "map_set [] k v = [(k, v)]"
| "map_set ((k', v') # m) k v =
     (if k' = k then (k, v) # m else (k', v') # map_set m k v)"

text \<open>
  \<open>email.match(/@([^@]+)$/)\<close>: the non-empty text after the last \<open>@\<close>.
\<close>

definition extractDomain :: "string \<Rightarrow> string option" where
  "extractDomain email =
     (let after = rev (takeWhile (\<lambda>c. c \<noteq> CHR ''@'') (rev email))
      in if CHR ''@'' \<notin> set email \<or> after = [] then None else Some after)"

definition INTERNAL_DOMAINS :: "string list" where
  "INTERNAL_DOMAINS = [''runlayer.com'', ''anysourcehq.com'']"

definition isInternalEmail :: "string \<Rightarrow> bool" where
  "isInternalEmail email =
     (case extractDomain email of
        None \<Rightarrow> False
      | Some domain \<Rightarrow> list_ex (\<lambda>d. toLowerCase domain = toLowerCase d) INTERNAL_DOMAINS)"

definition convertFirefliesActionItem ::
  "string \<Rightarrow> FirefliesActionItem \<Rightarrow> FirefliesTranscript \<Rightarrow> ActionItem" where
  "convertFirefliesActionItem sfx item transcript =
     (let isExternal =
            (case fai_assignee item of
               None \<Rightarrow> False
             | Some a \<Rightarrow> if a = [] then False else \<not> isInternalEmail a)
      in \<lparr> ai_id = ''ff-ai-'' @ ft_id transcript @ ''-'' @ sfx,
           ai_description = fai_text item,
           ai_owner = (if isExternal then Theirs else Ours),
           ai_assignee = fai_assignee item,
           ai_dueDate = fai_dueDate item,
           ai_createdDate = ft_date transcript,
           ai_status = Pending,
           ai_source = Some (ft_title transcript),
           ai_daysOverdue = None \<rparr>)"

definition newParticipant :: "string \<Rightarrow> string \<Rightarrow> PartialParticipant" where
  "newParticipant email name =
     \<lparr> pp_email = Some email,
       pp_name = Some name,
       pp_company = Some (case extractDomain email of None \<Rightarrow> [] | Some d \<Rightarrow> d),
       pp_title = Some [],
       pp_role = Some Unknown,
       pp_influence = Some InfMedium,
       pp_linkedInUrl = None,
       pp_background = None,
       pp_previousInteractions = Some [],
       pp_communicationNotes = None,
       pp_whatTheyCareAbout = None,
       pp_lastInteractionDate = None,
       pp_totalInteractions = None \<rparr>"

text \<open>The body of the loop over \<open>transcript.participants\<close>.\<close>

definition addTranscriptParticipant ::
  "FirefliesTranscript \<Rightarrow> (string \<times> PartialParticipant) list \<Rightarrow> string
     \<Rightarrow> (string \<times> PartialParticipant) list" where
  "addTranscriptParticipant transcript ps email =
     (if isInternalEmail email then ps
      else
        let existing = (case map_get ps email of
                          Some p \<Rightarrow> p
                        | None \<Rightarrow> newParticipant email []);
            interaction = \<lparr> ia_id = ''ff-'' @ ft_id transcript,
                            ia_date = ft_date transcript,
                            ia_type = ItCall,
                            ia_title = ft_title transcript,
                            ia_duration = Some (ft_duration transcript),
                            ia_summary = ft_summary transcript \<rparr>
        in map_set ps email
             (existing\<lparr>
                pp_previousInteractions :=
                  Some ((case pp_previousInteractions existing of None \<Rightarrow> [] | Some xs \<Rightarrow> xs)
                        @ [interaction]),
                pp_lastInteractionDate := Some (ft_date transcript),
                pp_totalInteractions :=
                  Some ((case pp_totalInteractions existing of None \<Rightarrow> 0 | Some n \<Rightarrow> n) + 1) \<rparr>))"

text \<open>
  The body of the loop over the transcripts. The state is the bundle under construction
  and the number of \<open>Math.random\<close> calls made so far.
\<close>

definition mergeTranscript ::
  "(nat \<Rightarrow> string) \<Rightarrow> MergedData \<times> nat \<Rightarrow> FirefliesTranscript \<Rightarrow> MergedData \<times> nat" where
  "mergeTranscript rnd st transcript =
     (let result = fst st; k = snd st;
          event = \<lparr> te_id = ''ff-'' @ ft_id transcript,
                    te_date = ft_date transcript,
                    te_type = EvCall,
                    te_title = ft_title transcript,
                    te_description = ft_summary transcript,
                    te_participants = Some (ft_participants transcript),
                    te_duration = Some (ft_duration transcript),
                    te_transcriptId = Some (ft_id transcript) \<rparr>;
          ps = foldl (addTranscriptParticipant transcript) (md_participants result)
                 (ft_participants transcript);
          items = map (\<lambda>(i, item). convertFirefliesActionItem (rnd (k + i)) item transcript)
                    (enumerate 0 (ft_actionItems transcript))
      in (result\<lparr> md_timeline := md_timeline result @ [event],
                   md_participants := ps,
                   md_actionItems := md_actionItems result @ items \<rparr>,
          k + length items))"

definition mergeFirefliesData ::
  "(nat \<Rightarrow> string) \<Rightarrow> MergedData \<times> nat \<Rightarrow> FirefliesData \<Rightarrow> MergedData \<times> nat" where
  "mergeFirefliesData rnd st data = foldl (mergeTranscript rnd) st (transcripts data)"

text \<open>
  The calendar date of a day number (days since the epoch), as \<open>toISOString\<close> prints
  it before the \<open>T\<close>.
\<close>

definition civil_from_days :: "int \<Rightarrow> int \<times> int \<times> int" where
  "civil_from_days days =
     (let z = days + 719468;
          era = z div 146097;
          doe = z mod 146097;
          yoe = (doe - doe div 1460 + doe div 36524 - doe div 146096) div 365;
          y = yoe + era * 400;
          doy = doe - (365 * yoe + yoe div 4 - yoe div 100);
          mp = (5 * doy + 2) div 153;
          d = doy - (153 * mp + 2) div 5 + 1;
          m = (if mp < 10 then mp + 3 else mp - 9)
      in (if m \<le> 2 then y + 1 else y, m, d))"

definition formatISODay :: "int \<Rightarrow> string" where
  "formatISODay days =
     (case civil_from_days days of
        (y, m, d) \<Rightarrow>
          (if 0 \<le> y \<and> y \<le> 9999 then padNat 4 (nat y)
           else (if y < 0 then ''-'' else ''+'') @ padNat 6 (nat \<bar>y\<bar>))
          @ ''-'' @ padNat 2 (nat m) @ ''-'' @ padNat 2 (nat d))"

definition msPerDay :: int where
  "msPerDay = 1000 * 60 * 60 * 24"

text \<open>
  Grouping the messages by day. The key is the day number of the timestamp, which
  stands for the date string \<open>toISOString().split('T')[0]\<close>; \<open>toISOString\<close> throws a
  RangeError on a timestamp that did not parse.
\<close>

fun groupByDate ::
  "(int \<times> SlackMessage list) list \<Rightarrow> SlackMessage list
     \<Rightarrow> error + (int \<times> SlackMessage list) list" where
  "groupByDate m [] = Inr m"
| "groupByDate m (message # rest) =
     (case sm_timestamp message of
        None \<Rightarrow> Inl RangeError
      | Some t \<Rightarrow>
          let dateKey = t div msPerDay;
              existing = (case map_get m dateKey of None \<Rightarrow> [] | Some xs \<Rightarrow> xs)
          in groupByDate (map_set m dateKey (existing @ [message])) rest)"

definition slackEvent :: "MergeOptions \<Rightarrow> int \<times> SlackMessage list \<Rightarrow> TimelineEvent" where
  "slackEvent options g =
     \<lparr> te_id = ''slack-'' @ formatISODay (fst g),
       te_date = fst g * msPerDay,
       te_type = EvNote,
       te_title = showNat (length (snd g)) @ '' Slack mentions'',
       te_description = Some (''Internal discussion about '' @ accountName options),
       te_participants = None,
       te_duration = None,
       te_transcriptId = None \<rparr>"

definition mergeSlackData :: "MergedData \<Rightarrow> SlackData \<Rightarrow> MergeOptions \<Rightarrow> error + MergedData" where
  "mergeSlackData result data options =
     (case groupByDate [] (messages data) of
        Inl e \<Rightarrow> Inl e
      | Inr messagesByDate \<Rightarrow>
          Inr (result\<lparr> md_timeline := md_timeline result
                 @ map (slackEvent options)
                     (filter (\<lambda>g. 3 \<le> length (snd g)) messagesByDate) \<rparr>))"

text \<open>The body of the loop over \<open>event.attendees\<close>.\<close>

definition addCalendarAttendee ::
  "(string \<times> PartialParticipant) list \<Rightarrow> CalendarAttendee \<Rightarrow> (string \<times> PartialParticipant) list" where
  "addCalendarAttendee ps attendee =
     (if isInternalEmail (ca_email attendee) then ps
      else
        let existing = (case map_get ps (ca_email attendee) of
                          Some p \<Rightarrow> p
                        | None \<Rightarrow> newParticipant (ca_email attendee)
                                    (case ca_displayName attendee of None \<Rightarrow> [] | Some n \<Rightarrow> n));
            hasDisplayName = (case ca_displayName attendee of None \<Rightarrow> False | Some n \<Rightarrow> n \<noteq> []);
            hasName = (case pp_name existing of None \<Rightarrow> False | Some n \<Rightarrow> n \<noteq> [])
        in map_set ps (ca_email attendee)
             (if hasDisplayName \<and> \<not> hasName
              then existing\<lparr> pp_name := ca_displayName attendee \<rparr>
              else existing))"

text \<open>Whether some attendee of a calendar event has the domain of the target account.\<close>

definition hasAccountAttendee :: "MergeOptions \<Rightarrow> CalendarEvent \<Rightarrow> bool" where
  "hasAccountAttendee options event =
     list_ex (\<lambda>a. case extractDomain (ca_email a) of
                    None \<Rightarrow> False
                  | Some domain \<Rightarrow> toLowerCase domain = toLowerCase (accountDomain options))
       (ce_attendees event)"

definition mergeCalendarEvent :: "MergeOptions \<Rightarrow> MergedData \<Rightarrow> CalendarEvent \<Rightarrow> MergedData" where
  "mergeCalendarEvent options result event =
     (if \<not> hasAccountAttendee options event then result
      else
        let timelineEvent =
              \<lparr> te_id = ''cal-'' @ ce_id event,
                te_date = ce_start event,
                te_type = EvMeeting,
                te_title = ce_summary event,
                te_description = ce_description event,
                te_participants = Some (map ca_email (ce_attendees event)),
                te_duration = Some ((ce_end event - ce_start event + 30000) div 60000),
                te_transcriptId = None \<rparr>
        in result\<lparr> md_timeline := md_timeline result @ [timelineEvent],
                    md_participants :=
                      foldl addCalendarAttendee (md_participants result) (ce_attendees event) \<rparr>)"

definition mergeCalendarData :: "MergedData \<Rightarrow> CalendarData \<Rightarrow> MergeOptions \<Rightarrow> MergedData" where
  "mergeCalendarData result data options = foldl (mergeCalendarEvent options) result (events data)"

definition consolidateParticipant :: "PartialParticipant \<Rightarrow> PartialParticipant" where
  "consolidateParticipant participant =
     (case pp_previousInteractions participant of
        None \<Rightarrow> participant
      | Some xs \<Rightarrow>
          let sorted = sort_key (\<lambda>i. - ia_date i) xs
          in (case sorted of
                [] \<Rightarrow> participant\<lparr> pp_previousInteractions := Some sorted \<rparr>
              | first # _ \<Rightarrow>
                  participant\<lparr> pp_previousInteractions := Some sorted,
                               pp_lastInteractionDate := Some (ia_date first) \<rparr>))"

definition deduplicateParticipants :: "MergedData \<Rightarrow> MergedData" where
  "deduplicateParticipants result =
     result\<lparr> md_participants :=
               map (\<lambda>(k, p). (k, consolidateParticipant p)) (md_participants result) \<rparr>"

text \<open>
  \<open>result.timeline.sort((a, b) => a.date.getTime() - b.date.getTime())\<close>. On valid
  dates the comparator is the difference of two time values, so the stable sort by it is
  the stable sort by the time value. On an Invalid Date the comparator yields NaN and the
  result of the sort need not be ordered; such a timeline is not a value of the model.
\<close>

definition sortTimeline :: "MergedData \<Rightarrow> MergedData" where
  "sortTimeline result = result\<lparr> md_timeline := sort_key te_date (md_timeline result) \<rparr>"

definition participantContact :: "PartialParticipant \<Rightarrow> Contact" where
  "participantContact p =
     \<lparr> ct_id = (case pp_email p of None \<Rightarrow> [] | Some e \<Rightarrow> e),
       ct_email = (case pp_email p of None \<Rightarrow> [] | Some e \<Rightarrow> e),
       ct_name = (case pp_name p of None \<Rightarrow> [] | Some n \<Rightarrow> n),
       ct_title = pp_title p \<rparr>"

definition computeAccountMetrics :: "MergedData \<Rightarrow> MergedData" where
  "computeAccountMetrics result =
     (let account = md_account result;
          account1 = (if md_timeline result \<noteq> []
                      then account\<lparr> pa_lastContactDate := Some (te_date (last (md_timeline result))) \<rparr>
                      else account)
      in result\<lparr> md_account :=
           account1\<lparr> pa_openActionItems :=
                        filter (\<lambda>item. ai_status item = Pending \<or> ai_status item = Overdue)
                          (md_actionItems result),
                      pa_contacts := map (\<lambda>(k, p). participantContact p) (md_participants result),
                      pa_timeline := md_timeline result \<rparr> \<rparr>)"

definition initialMergedData :: "MergeOptions \<Rightarrow> MergedData" where
  "initialMergedData options =
     \<lparr> md_account = \<lparr> pa_id = None,
                      pa_name = Some (accountName options),
                      pa_domain = Some (accountDomain options),
                      pa_dealStage = None,
                      pa_dealValue = None,
                      pa_closeDate = None,
                      pa_lastContactDate = None,
                      pa_contacts = [],
                      pa_timeline = [],
                      pa_openActionItems = [],
                      pa_risks = [] \<rparr>,
       md_participants = [],
       md_timeline = [],
       md_actionItems = [],
       md_meetings = [] \<rparr>"

definition mergeAllData ::
  "(nat \<Rightarrow> string) \<Rightarrow> FirefliesData \<Rightarrow> SlackData \<Rightarrow> CalendarData \<Rightarrow> MergeOptions
     \<Rightarrow> error + MergedData" where
  "mergeAllData rnd fireflies slack calendar options =
     (let result1 = fst (mergeFirefliesData rnd (initialMergedData options, 0) fireflies)
      in case mergeSlackData result1 slack options of
           Inl e \<Rightarrow> Inl e
         | Inr result2 \<Rightarrow>
             Inr (computeAccountMetrics
                    (sortTimeline
                       (deduplicateParticipants
                          (mergeCalendarData result2 calendar options)))))"

text \<open>
  The addresses that the merger reads as participants: the participants of every
  transcript and the attendees of every calendar event that has an attendee of the
  account domain.
\<close>

definition sourceAddresses :: "FirefliesData \<Rightarrow> CalendarData \<Rightarrow> MergeOptions \<Rightarrow> string list" where
  "sourceAddresses fireflies calendar options =
     concat (map ft_participants (transcripts fireflies))
     @ map ca_email
         (concat (map ce_attendees (filter (hasAccountAttendee options) (events calendar))))"

text \<open>
  A registry is well keyed when no key occurs twice and every entry records its own key
  as its address.
\<close>

definition wellKeyed :: "(string \<times> PartialParticipant) list \<Rightarrow> bool" where
  "wellKeyed ps = (distinct (map fst ps) \<and> list_all (\<lambda>(k, p). pp_email p = Some k) ps)"

subsection \<open>Dates\<close>

text \<open>\<open>Math.ceil(Math.abs(date2 - date1) / msPerDay)\<close>.\<close>

definition daysBetween :: "int \<Rightarrow> int \<Rightarrow> int" where
  "daysBetween date1 date2 = (\<bar>date2 - date1\<bar> + msPerDay - 1) div msPerDay"

definition daysAgo :: "int \<Rightarrow> int \<Rightarrow> int" where
  "daysAgo now date = daysBetween date now"

text \<open>The separate overdue pass, which \<open>mergeAllData\<close> does not run.\<close>

definition markOverdueItem :: "int \<Rightarrow> ActionItem \<Rightarrow> ActionItem" where
  "markOverdueItem now item =
     (if ai_status item \<noteq> Pending then item
      else case ai_dueDate item of
             None \<Rightarrow> item
           | Some due \<Rightarrow>
               if due < now
               then item\<lparr> ai_status := Overdue, ai_daysOverdue := Some (daysAgo now due) \<rparr>
               else item)"

definition markOverdueItems :: "int \<Rightarrow> ActionItem list \<Rightarrow> ActionItem list" where
  "markOverdueItems now items = map (markOverdueItem now) items"

subsection \<open>The account analyzer\<close>

record AccountAnalysis =
  momentum :: Momentum
  momentumScore :: int
  engagementVelocity :: Velocity
  daysInStage :: int
  daysSinceLastContact :: int
  risks :: "Risk list"
  healthScore :: int
  insights :: "string list"

record AnalysisOptions =
  currentDealStage :: "string option"
  currentDealValue :: "int option"
  stageStartDate :: "int option"

definition calculateDaysSinceLastContact :: "int \<Rightarrow> TimelineEvent list \<Rightarrow> int" where
  "calculateDaysSinceLastContact now timeline =
     (if length timeline = 0 then 999
      else case sort_key (\<lambda>e. - te_date e) timeline of
             [] \<Rightarrow> 999
           | lastEvent # _ \<Rightarrow> daysAgo now (te_date lastEvent))"

text \<open>
  \<open>setDate(getDate() - 30)\<close> moves the local calendar date back by thirty days; the
  model takes thirty days of milliseconds.
\<close>

definition calculateEngagementVelocity :: "int \<Rightarrow> TimelineEvent list \<Rightarrow> Velocity" where
  "calculateEngagementVelocity now timeline =
     (let thirtyDaysAgo = now - 30 * msPerDay;
          recentEvents = filter (\<lambda>e. thirtyDaysAgo \<le> te_date e) timeline;
          eventsPerWeek = (rat_of_nat (length recentEvents) / 30) * 7
      in if 2 \<le> eventsPerWeek then VelHigh
         else if 1 / 2 \<le> eventsPerWeek then VelMedium
         else VelLow)"

definition calculateMomentumScore :: "int \<Rightarrow> MergedData \<Rightarrow> int \<Rightarrow> int" where
  "calculateMomentumScore now data daysSince =
     (let score0 = (50 :: int);
          score1 = (if daysSince \<le> 3 then score0 + 20
                    else if daysSince \<le> 7 then score0 + 10
                    else if daysSince > 14 then score0 - 20
                    else if daysSince > 30 then score0 - 40
                    else score0);
          participantCount = length (md_participants data);
          score2 = (if participantCount \<ge> 5 then score1 + 15
                    else if participantCount \<ge> 3 then score1 + 10
                    else if participantCount < 2 then score1 - 10
                    else score1);
          recentCalls = filter (\<lambda>e. te_type e = EvCall \<and> daysAgo now (te_date e) \<le> 14)
                          (md_timeline data);
          score3 = (if length recentCalls \<ge> 2 then score2 + 15
                    else if length recentCalls \<ge> 1 then score2 + 5
                    else score2);
          overdueOurs = filter (\<lambda>i. ai_owner i = Ours \<and> ai_status i = Overdue)
                          (md_actionItems data);
          score4 = score3 - int (length overdueOurs) * 5;
          overdueTheirs = filter (\<lambda>i. ai_owner i = Theirs \<and> ai_status i = Overdue)
                            (md_actionItems data);
          score5 = score4 - int (length overdueTheirs) * 3
      in max 0 (min 100 score5))"

definition scoreMomentum :: "int \<Rightarrow> Momentum" where
  "scoreMomentum score =
     (if score \<ge> 70 then Accelerating
      else if score \<ge> 50 then Stable
      else if score \<ge> 30 then Stalling
      else AtRisk)"

definition calculateHealthScore :: "int \<Rightarrow> Risk list \<Rightarrow> ActionItem list \<Rightarrow> int" where
  "calculateHealthScore mScore rs actionItems =
     (let highRisks = length (filter (\<lambda>r. rk_severity r = High) rs);
          mediumRisks = length (filter (\<lambda>r. rk_severity r = Medium) rs);
          overdueItems = length (filter (\<lambda>i. ai_status i = Overdue) actionItems);
          score = mScore - int highRisks * 15 - int mediumRisks * 5 - int overdueItems * 3
      in max 0 (min 100 score))"

definition detectRisks :: "int \<Rightarrow> MergedData \<Rightarrow> int \<Rightarrow> int \<Rightarrow> Risk list" where
  "detectRisks now data daysSince inStage =
     (let overdueOurs = filter (\<lambda>i. ai_owner i = Ours \<and> ai_status i = Overdue)
                          (md_actionItems data);
          overdueTheirs = filter (\<lambda>i. ai_owner i = Theirs \<and> ai_status i = Overdue)
                            (md_actionItems data);
          profiles = map snd (md_participants data);
          hasChampion = list_ex (\<lambda>p. pp_role p = Some Champion) profiles;
          hasEconomicBuyer = list_ex (\<lambda>p. pp_role p = Some EconomicBuyer) profiles
      in
        (if daysSince > 7
         then [\<lparr> rk_id = ''risk-stale-comm'',
                  rk_type = RtTimeline,
                  rk_severity = (if daysSince > 14 then High else Medium),
                  rk_description = ''No contact in '' @ showInt daysSince @ '' days'',
                  rk_detectedDate = now,
                  rk_mitigationSuggestion = Some ''Schedule a check-in call or send an update'' \<rparr>]
         else [])
        @ (if inStage > 30
           then [\<lparr> rk_id = ''risk-stuck-stage'',
                    rk_type = RtTimeline,
                    rk_severity = (if inStage > 60 then High else Medium),
                    rk_description =
                      ''Deal has been in current stage for '' @ showInt inStage @ '' days'',
                    rk_detectedDate = now,
                    rk_mitigationSuggestion =
                      Some ''Identify and address blockers to move forward'' \<rparr>]
           else [])
        @ (if length (md_participants data) < 3
           then [\<lparr> rk_id = ''risk-single-thread'',
                    rk_type = RtStakeholder,
                    rk_severity = Medium,
                    rk_description = ''Limited multi-threading - only engaging few stakeholders'',
                    rk_detectedDate = now,
                    rk_mitigationSuggestion =
                      Some ''Identify and engage additional decision makers'' \<rparr>]
           else [])
        @ (if length overdueOurs > 0
           then [\<lparr> rk_id = ''risk-overdue-ours'',
                    rk_type = RtTimeline,
                    rk_severity = (if length overdueOurs > 2 then High else Medium),
                    rk_description =
                      showNat (length overdueOurs) @ '' overdue action items on our side'',
                    rk_detectedDate = now,
                    rk_mitigationSuggestion =
                      Some ''Complete overdue items or communicate new timeline'' \<rparr>]
           else [])
        @ (if length overdueTheirs > 0
           then [\<lparr> rk_id = ''risk-overdue-theirs'',
                    rk_type = RtTimeline,
                    rk_severity = (if length overdueTheirs > 2 then High else Medium),
                    rk_description =
                      showNat (length overdueTheirs) @ '' overdue action items waiting on customer'',
                    rk_detectedDate = now,
                    rk_mitigationSuggestion =
                      Some ''Follow up on pending items and offer assistance'' \<rparr>]
           else [])
        @ (if \<not> hasChampion \<and> length (md_participants data) > 0
           then [\<lparr> rk_id = ''risk-no-champion'',
                    rk_type = RtStakeholder,
                    rk_severity = Medium,
                    rk_description = ''No clear internal champion identified'',
                    rk_detectedDate = now,
                    rk_mitigationSuggestion =
                      Some ''Identify and cultivate an internal advocate'' \<rparr>]
           else [])
        @ (if \<not> hasEconomicBuyer \<and> length (md_participants data) \<ge> 3
           then [\<lparr> rk_id = ''risk-no-buyer'',
                    rk_type = RtStakeholder,
                    rk_severity = High,
                    rk_description = ''Economic buyer not yet engaged'',
                    rk_detectedDate = now,
                    rk_mitigationSuggestion =
                      Some ''Get introduction to budget holder before POC ends'' \<rparr>]
           else []))"

definition generateInsights :: "int \<Rightarrow> MergedData \<Rightarrow> Momentum \<Rightarrow> Risk list \<Rightarrow> string list" where
  "generateInsights now data m rs =
     (let participantCount = length (md_participants data);
          highSeverityRisks = filter (\<lambda>r. rk_severity r = High) rs;
          recentActivity = filter (\<lambda>e. daysAgo now (te_date e) \<le> 7) (md_timeline data)
      in
        [case m of
           Accelerating \<Rightarrow> ''Strong momentum - deal is progressing well''
         | Stable \<Rightarrow> ''Stable engagement - maintain current cadence''
         | Stalling \<Rightarrow> ''Momentum slowing - proactive outreach recommended''
         | AtRisk \<Rightarrow> ''Deal at risk - immediate action needed'']
        @ (if participantCount \<ge> 5
           then [''Strong multi-threading with '' @ showNat participantCount
                   @ ''+ stakeholders engaged'']
           else [])
        @ concat (map (\<lambda>risk. case rk_mitigationSuggestion risk of
                                 None \<Rightarrow> []
                               | Some sug \<Rightarrow> if sug = [] then [] else [''Action needed: '' @ sug])
                    highSeverityRisks)
        @ (if length recentActivity \<ge> 3
           then [''High recent activity indicates active engagement'']
           else []))"

definition analyzeAccount :: "int \<Rightarrow> MergedData \<Rightarrow> AnalysisOptions \<Rightarrow> AccountAnalysis" where
  "analyzeAccount now data options =
     (let daysSince = calculateDaysSinceLastContact now (md_timeline data);
          inStage = (case stageStartDate options of None \<Rightarrow> 0 | Some d \<Rightarrow> daysAgo now d);
          velocity = calculateEngagementVelocity now (md_timeline data);
          mScore = calculateMomentumScore now data daysSince;
          m = scoreMomentum mScore;
          rs = detectRisks now data daysSince inStage;
          hScore = calculateHealthScore mScore rs (md_actionItems data);
          ins = generateInsights now data m rs
      in \<lparr> momentum = m,
           momentumScore = mScore,
           engagementVelocity = velocity,
           daysInStage = inStage,
           daysSinceLastContact = daysSince,
           risks = rs,
           healthScore = hScore,
           insights = ins \<rparr>)"

definition emptyAnalysisOptions :: AnalysisOptions where
  "emptyAnalysisOptions =
     \<lparr> currentDealStage = None, currentDealValue = None, stageStartDate = None \<rparr>"

text \<open>
  \<open>account.lastContactDate ?? new Date()\<close> reads the clock when the bundle has no
  last contact.
\<close>

definition applyAnalysisToAccount :: "int \<Rightarrow> PartialAccount \<Rightarrow> AccountAnalysis \<Rightarrow> Account" where
  "applyAnalysisToAccount now account analysis =
     \<lparr> ac_id = (case pa_id account of None \<Rightarrow> [] | Some x \<Rightarrow> x),
       ac_name = (case pa_name account of None \<Rightarrow> [] | Some x \<Rightarrow> x),
       ac_domain = (case pa_domain account of None \<Rightarrow> [] | Some x \<Rightarrow> x),
       ac_dealStage = (case pa_dealStage account of None \<Rightarrow> ''unknown'' | Some x \<Rightarrow> x),
       ac_dealValue = (case pa_dealValue account of None \<Rightarrow> 0 | Some x \<Rightarrow> x),
       ac_closeDate = pa_closeDate account,
       ac_daysInStage = daysInStage analysis,
       ac_lastContactDate = (case pa_lastContactDate account of None \<Rightarrow> now | Some x \<Rightarrow> x),
       ac_momentum = momentum analysis,
       ac_contacts = pa_contacts account,
       ac_timeline = pa_timeline account,
       ac_openActionItems = pa_openActionItems account,
       ac_risks = risks analysis,
       ac_notes = None,
       ac_industry = None,
       ac_employeeCount = None,
       ac_headquarters = None \<rparr>"

subsection \<open>The participant profiler\<close>

datatype EnrichmentSource = Exa | LinkedIn | Manual | Inferred

text \<open>
  \<open>confidence\<close> is the exact quotient; the code holds the nearest double.
\<close>

record ParticipantProfile = Participant +
  enrichmentSource :: "EnrichmentSource option"
  enrichedAt :: "int option"
  confidence :: rat

record PersonInfo =
  pi_name :: string
  pi_title :: "string option"
  pi_company :: "string option"
  pi_linkedInUrl :: "string option"
  pi_background :: "string option"

record ProfileEnrichmentOptions =
  opt_inferRole :: "bool option"
  opt_inferInfluence :: "bool option"

definition ROLE_KEYWORDS :: "(ParticipantRole \<times> string list) list" where
  "ROLE_KEYWORDS =
     [(Champion, [''advocate'', ''sponsor'', ''supporter'', ''driving'', ''pushing'', ''excited'',
                  ''enthusiastic'']),
      (Blocker, [''concern'', ''hesitant'', ''pushback'', ''skeptical'', ''opposed'', ''blocking'',
                 ''resistant'']),
      (EconomicBuyer, [''budget'', ''approve'', ''sign off'', ''authorize'', ''procurement'',
                       ''purchase'', ''contract'', ''vp'', ''director'', ''head of'', ''chief'']),
      (TechnicalEvaluator, [''evaluate'', ''test'', ''poc'', ''proof of concept'', ''technical'',
                            ''engineer'', ''architect'', ''developer'', ''security'',
                            ''infrastructure'']),
      (DecisionMaker, [''decide'', ''final say'', ''approval'', ''executive'', ''leader'',
                       ''manager'', ''director'']),
      (Influencer, [''recommend'', ''suggest'', ''advise'', ''consult'', ''stakeholder'', ''input'']),
      (Unknown, [])]"

text \<open>
  The title patterns all have the shape \<open>/\b(w1|w2|...)\b/i\<close>. A pattern is the list of
  its alternatives (\<open>sr\.?\<close> is the two alternatives \<open>sr\<close> and \<open>sr.\<close>), and
  \<open>regexTest\<close> is \<open>pattern.test(s)\<close>: some alternative occurs in \<open>s\<close> with a word
  boundary on each side.
\<close>

definition isWordChar :: "char \<Rightarrow> bool" where
  "isWordChar c =
     (let n = (of_char c :: nat)
      in (48 \<le> n \<and> n \<le> 57) \<or> (65 \<le> n \<and> n \<le> 90) \<or> n = 95 \<or> (97 \<le> n \<and> n \<le> 122))"

definition wordCharAt :: "char option \<Rightarrow> bool" where
  "wordCharAt c = (case c of None \<Rightarrow> False | Some x \<Rightarrow> isWordChar x)"

definition wordBoundary :: "char option \<Rightarrow> char option \<Rightarrow> bool" where
  "wordBoundary l r = (wordCharAt l \<noteq> wordCharAt r)"

definition headOpt :: "'a list \<Rightarrow> 'a option" where
  "headOpt xs = (case xs of [] \<Rightarrow> None | x # _ \<Rightarrow> Some x)"

definition altMatchesHere :: "char option \<Rightarrow> string \<Rightarrow> string \<Rightarrow> bool" where
  "altMatchesHere prev rest w =
     (prefix w rest
      \<and> wordBoundary prev (headOpt rest)
      \<and> wordBoundary (if w = [] then prev else Some (last w)) (headOpt (drop (length w) rest)))"

fun testFrom :: "string list \<Rightarrow> char option \<Rightarrow> string \<Rightarrow> bool" where
  "testFrom alts prev [] = list_ex (altMatchesHere prev []) alts"
| "testFrom alts prev (c # cs) =
     (list_ex (altMatchesHere prev (c # cs)) alts \<or> testFrom alts (Some c) cs)"

definition regexTest :: "string list \<Rightarrow> string \<Rightarrow> bool" where
  "regexTest alts s = testFrom alts None (toLowerCase s)"

definition TITLE_ROLE_PATTERNS :: "(string list \<times> ParticipantRole) list" where
  "TITLE_ROLE_PATTERNS =
     [([''ceo'', ''cto'', ''cfo'', ''coo'', ''ciso'', ''cio''], EconomicBuyer),
      ([''vp'', ''vice president'', ''svp'', ''evp''], EconomicBuyer),
      ([''director'', ''head of''], DecisionMaker),
      ([''engineer'', ''developer'', ''architect''], TechnicalEvaluator),
      ([''security'', ''infosec'', ''cyber''], TechnicalEvaluator),
      ([''procurement'', ''purchasing'', ''buyer''], EconomicBuyer),
      ([''manager''], Influencer),
      ([''analyst'', ''specialist''], Influencer)]"

definition INFLUENCE_PATTERNS :: "(string list \<times> InfluenceLevel) list" where
  "INFLUENCE_PATTERNS =
     [([''ceo'', ''cto'', ''cfo'', ''coo'', ''ciso'', ''cio''], InfHigh),
      ([''vp'', ''vice president'', ''svp'', ''evp''], InfHigh),
      ([''director'', ''head of''], InfHigh),
      ([''senior'', ''sr'', ''sr.'', ''principal'', ''staff''], InfMedium),
      ([''manager'', ''lead''], InfMedium),
      ([''junior'', ''jr'', ''jr.'', ''associate'', ''intern''], InfLow)]"

text \<open>The first entry of an ordered pattern table whose pattern matches.\<close>

fun firstMatch :: "(string list \<times> 'a) list \<Rightarrow> string \<Rightarrow> 'a option" where
  "firstMatch [] s = None"
| "firstMatch ((pat, tag) # rest) s = (if regexTest pat s then Some tag else firstMatch rest s)"

text \<open>The keyword loop of \<open>inferRole\<close>: a later role wins only with a strictly higher score.\<close>

fun bestKeywordRole ::
  "(ParticipantRole \<times> string list) list \<Rightarrow> string \<Rightarrow> ParticipantRole \<times> nat
     \<Rightarrow> ParticipantRole \<times> nat" where
  "bestKeywordRole [] allText best = best"
| "bestKeywordRole ((role, keywords) # rest) allText best =
     (let score = length (filter (\<lambda>k. str_includes allText k) keywords)
      in bestKeywordRole rest allText (if score > snd best then (role, score) else best))"

definition inferRole :: "'a Participant_scheme \<Rightarrow> ParticipantRole" where
  "inferRole participant =
     (let title = toLowerCase (p_title participant)
      in case firstMatch TITLE_ROLE_PATTERNS title of
           Some role \<Rightarrow> role
         | None \<Rightarrow>
             let allText =
                   toLowerCase
                     (join '' ''
                        (map (\<lambda>i. ia_title i @ '' ''
                                   @ (case ia_summary i of None \<Rightarrow> [] | Some x \<Rightarrow> x))
                           (p_previousInteractions participant)))
             in fst (bestKeywordRole ROLE_KEYWORDS allText (Unknown, 0)))"

definition inferInfluence :: "'a Participant_scheme \<Rightarrow> InfluenceLevel" where
  "inferInfluence participant =
     (let title = toLowerCase (p_title participant);
          interactionCount = (case p_totalInteractions participant of None \<Rightarrow> 0 | Some n \<Rightarrow> n)
      in case firstMatch INFLUENCE_PATTERNS title of
           Some influence \<Rightarrow> influence
         | None \<Rightarrow>
             if interactionCount \<ge> 5 then InfHigh
             else if interactionCount \<ge> 2 then InfMedium
             else InfLow)"

definition truthy :: "string option \<Rightarrow> bool" where
  "truthy x = (case x of None \<Rightarrow> False | Some v \<Rightarrow> v \<noteq> [])"

definition calculateConfidence :: "ParticipantProfile \<Rightarrow> rat" where
  "calculateConfidence profile =
     (let signals = [p_name profile \<noteq> [], p_title profile \<noteq> [], p_company profile \<noteq> [],
                     truthy (p_linkedInUrl profile), truthy (p_background profile),
                     length (p_previousInteractions profile) > 0];
          present = length (filter id signals);
          score = rat_of_nat present + (if p_role profile \<noteq> Unknown then 1 / 2 else 0);
          factors = present + (if p_role profile \<noteq> Unknown then 1 else 0)
      in if factors > 0 then score / rat_of_nat factors else 0)"

definition enrichParticipant ::
  "int \<Rightarrow> PartialParticipant \<Rightarrow> PersonInfo option \<Rightarrow> ProfileEnrichmentOptions
     \<Rightarrow> ParticipantProfile" where
  "enrichParticipant now participant personInfo options =
     (let profile0 =
            \<lparr> p_email = (case pp_email participant of Some x \<Rightarrow> x | None \<Rightarrow> []),
              p_name = (case pp_name participant of
                          Some x \<Rightarrow> x
                        | None \<Rightarrow> (case personInfo of Some i \<Rightarrow> pi_name i | None \<Rightarrow> [])),
              p_company = (case pp_company participant of
                             Some x \<Rightarrow> x
                           | None \<Rightarrow> (case Option.bind personInfo pi_company of
                                        Some x \<Rightarrow> x | None \<Rightarrow> [])),
              p_title = (case pp_title participant of
                           Some x \<Rightarrow> x
                         | None \<Rightarrow> (case Option.bind personInfo pi_title of
                                      Some x \<Rightarrow> x | None \<Rightarrow> [])),
              p_role = (case pp_role participant of Some x \<Rightarrow> x | None \<Rightarrow> Unknown),
              p_influence = (case pp_influence participant of Some x \<Rightarrow> x | None \<Rightarrow> InfMedium),
              p_linkedInUrl = (case pp_linkedInUrl participant of
                                 Some x \<Rightarrow> Some x
                               | None \<Rightarrow> Option.bind personInfo pi_linkedInUrl),
              p_background = (case pp_background participant of
                                Some x \<Rightarrow> Some x
                              | None \<Rightarrow> Option.bind personInfo pi_background),
              p_previousInteractions =
                (case pp_previousInteractions participant of Some x \<Rightarrow> x | None \<Rightarrow> []),
              p_communicationNotes = pp_communicationNotes participant,
              p_whatTheyCareAbout = pp_whatTheyCareAbout participant,
              p_lastInteractionDate = pp_lastInteractionDate participant,
              p_totalInteractions = pp_totalInteractions participant,
              enrichmentSource = (case personInfo of None \<Rightarrow> None | Some _ \<Rightarrow> Some Exa),
              enrichedAt = (case personInfo of None \<Rightarrow> None | Some _ \<Rightarrow> Some now),
              confidence = (case personInfo of None \<Rightarrow> 1 / 2 | Some _ \<Rightarrow> 7 / 10) \<rparr>;
          profile1 = (if opt_inferRole options \<noteq> Some False \<and> p_role profile0 = Unknown
                      then profile0\<lparr> p_role := inferRole profile0 \<rparr>
                      else profile0);
          profile2 = (if opt_inferInfluence options \<noteq> Some False
                      then profile1\<lparr> p_influence := inferInfluence profile1 \<rparr>
                      else profile1)
      in profile2\<lparr> confidence := calculateConfidence profile2 \<rparr>)"

definition defaultEnrichmentOptions :: ProfileEnrichmentOptions where
  "defaultEnrichmentOptions = \<lparr> opt_inferRole = None, opt_inferInfluence = None \<rparr>"

definition profileParticipants ::
  "int \<Rightarrow> (string \<times> PartialParticipant) list \<Rightarrow> (string \<times> PersonInfo) list option
     \<Rightarrow> ProfileEnrichmentOptions \<Rightarrow> (string \<times> ParticipantProfile) list" where
  "profileParticipants now participants personInfoMap options =
     foldl (\<lambda>profiles (email, participant).
              map_set profiles email
                (enrichParticipant now participant
                   (case personInfoMap of None \<Rightarrow> None | Some m \<Rightarrow> map_get m email)
                   options))
       [] participants"

definition identifyMissingStakeholders :: "(string \<times> ParticipantProfile) list \<Rightarrow> string list" where
  "identifyMissingStakeholders profiles =
     (let hasRole = (\<lambda>role. list_ex (\<lambda>p. p_role p = role) (map snd profiles))
      in map snd
           (filter (\<lambda>r. \<not> hasRole (fst r))
              [(EconomicBuyer, ''Economic buyer not yet identified''),
               (TechnicalEvaluator, ''Technical evaluator not yet engaged''),
               (Champion, ''No clear champion identified'')]))"

subsection \<open>The goal generator\<close>

record Goal =
  g_id :: string
  g_priority :: nat
  g_title :: string
  g_rationale :: string
  g_suggestedApproach :: "string option"
  g_relatedRisks :: "string list option"
  g_relatedActionItems :: "string list option"

record GoalGenerationContext =
  ctx_account :: PartialAccount
  ctx_analysis :: AccountAnalysis
  ctx_participants :: "(string \<times> ParticipantProfile) list"
  ctx_mergedData :: MergedData
  ctx_meetingTitle :: "string option"

definition hasEconomicBuyerEngaged :: "'a GoalGenerationContext_scheme \<Rightarrow> bool" where
  "hasEconomicBuyerEngaged context =
     list_ex (\<lambda>p. p_role p = EconomicBuyer) (map snd (ctx_participants context))"

record GoalTemplate =
  gt_title :: string
  gt_rationale :: string
  gt_approach :: "string option"
  gt_condition :: "(GoalGenerationContext \<Rightarrow> bool) option"

record StageGoalTemplate =
  stages :: "string list"
  stageGoals :: "GoalTemplate list"

definition STAGE_GOAL_TEMPLATES :: "StageGoalTemplate list" where
  "STAGE_GOAL_TEMPLATES =
     [\<lparr> stages = [''discovery'', ''qualification'', ''initial''],
         stageGoals =
           [\<lparr> gt_title = ''Confirm decision-making process and timeline'',
               gt_rationale = ''Early-stage deals need clarity on how decisions are made'',
               gt_approach = Some ''Ask about evaluation criteria and who needs to sign off'',
               gt_condition = None \<rparr>,
            \<lparr> gt_title = ''Identify all key stakeholders'',
               gt_rationale = ''Multi-threading early improves win rates'',
               gt_approach = Some ''Ask who else should be involved in the evaluation'',
               gt_condition = None \<rparr>,
            \<lparr> gt_title = ''Understand current solution and pain points'',
               gt_rationale = ''Establishes baseline for value proposition'',
               gt_approach = Some ''Ask about current workflows and biggest challenges'',
               gt_condition = None \<rparr>] \<rparr>,
      \<lparr> stages = [''poc'', ''proof of concept'', ''pilot'', ''trial'', ''evaluation''],
         stageGoals =
           [\<lparr> gt_title = ''Confirm POC success criteria are on track'',
               gt_rationale = ''Early identification of blockers prevents surprises'',
               gt_approach = Some ''Review each success criterion and current status'',
               gt_condition = None \<rparr>,
            \<lparr> gt_title = ''Address any technical blockers'',
               gt_rationale = ''Technical issues in POC can derail entire deal'',
               gt_approach = Some ''Ask directly about any challenges or concerns'',
               gt_condition = None \<rparr>,
            \<lparr> gt_title = ''Schedule executive briefing before POC ends'',
               gt_rationale = ''Economic buyers need to see value before procurement'',
               gt_approach = Some ''Request intro to leadership for a brief status update'',
               gt_condition = Some (\<lambda>ctx. \<not> hasEconomicBuyerEngaged ctx) \<rparr>,
            \<lparr> gt_title = ''Verify procurement timeline'',
               gt_rationale = ''Procurement often takes longer than expected'',
               gt_approach = Some ''Ask specific questions about approval process and timing'',
               gt_condition = None \<rparr>] \<rparr>,
      \<lparr> stages = [''negotiation'', ''proposal'', ''contract'', ''legal''],
         stageGoals =
           [\<lparr> gt_title = ''Resolve outstanding contract terms'',
               gt_rationale = ''Legal back-and-forth can delay close significantly'',
               gt_approach = Some ''Identify remaining open items and decision makers'',
               gt_condition = None \<rparr>,
            \<lparr> gt_title = ''Confirm budget approval status'',
               gt_rationale = ''Budget surprises at this stage are deal killers'',
               gt_approach = Some ''Directly confirm budget has been allocated'',
               gt_condition = None \<rparr>,
            \<lparr> gt_title = ''Lock in implementation timeline'',
               gt_rationale = ''Urgency creates momentum toward close'',
               gt_approach = Some ''Propose specific dates for kickoff'',
               gt_condition = None \<rparr>] \<rparr>,
      \<lparr> stages = [''closed'', ''won'', ''customer'', ''implementation''],
         stageGoals =
           [\<lparr> gt_title = ''Confirm implementation milestones'',
               gt_rationale = ''Successful implementation drives expansion'',
               gt_approach = Some ''Review timeline and identify any risks'',
               gt_condition = None \<rparr>,
            \<lparr> gt_title = ''Identify expansion opportunities'',
               gt_rationale = ''Happy customers are best source of growth'',
               gt_approach = Some ''Ask about other teams or use cases'',
               gt_condition = None \<rparr>] \<rparr>]"

text \<open>
  The category generators return goals without an id (\<open>Omit<Goal, 'id'>\<close>); in the
  model the id is empty until \<open>generateGoals\<close> numbers them.
\<close>

definition generateStageGoals :: "GoalGenerationContext \<Rightarrow> Goal list" where
  "generateStageGoals context =
     (let dealStage = (case pa_dealStage (ctx_account context) of
                         Some x \<Rightarrow> toLowerCase x
                       | None \<Rightarrow> ''unknown'')
      in case find (\<lambda>t. list_ex (\<lambda>s. str_includes dealStage s) (stages t)) STAGE_GOAL_TEMPLATES of
           None \<Rightarrow>
             [\<lparr> g_id = [], g_priority = 2,
                 g_title = ''Understand current status and next steps'',
                 g_rationale = ''Maintain momentum and clarity on path forward'',
                 g_suggestedApproach = None,
                 g_relatedRisks = None,
                 g_relatedActionItems = None \<rparr>]
         | Some template \<Rightarrow>
             map (\<lambda>goalTemplate.
                    \<lparr> g_id = [], g_priority = 2,
                      g_title = gt_title goalTemplate,
                      g_rationale = gt_rationale goalTemplate,
                      g_suggestedApproach = gt_approach goalTemplate,
                      g_relatedRisks = None,
                      g_relatedActionItems = None \<rparr>)
               (filter (\<lambda>goalTemplate.
                          case gt_condition goalTemplate of
                            None \<Rightarrow> True
                          | Some condition \<Rightarrow> condition context)
                  (stageGoals template)))"

definition riskGoals :: "Risk \<Rightarrow> Goal list" where
  "riskGoals risk =
     (if rk_severity risk = High
      then [\<lparr> g_id = [], g_priority = 1,
               g_title = ''Address: '' @ rk_description risk,
               g_rationale = ''High-severity risk that needs immediate attention'',
               g_suggestedApproach = rk_mitigationSuggestion risk,
               g_relatedRisks = Some [rk_id risk],
               g_relatedActionItems = None \<rparr>]
      else [])
     @ (if rk_severity risk = Medium
        then [\<lparr> g_id = [], g_priority = 3,
                 g_title = ''Discuss: '' @ rk_description risk,
                 g_rationale = ''Medium risk worth addressing proactively'',
                 g_suggestedApproach = rk_mitigationSuggestion risk,
                 g_relatedRisks = Some [rk_id risk],
                 g_relatedActionItems = None \<rparr>]
        else [])"

definition generateRiskGoals :: "GoalGenerationContext \<Rightarrow> Goal list" where
  "generateRiskGoals context = concat (map riskGoals (risks (ctx_analysis context)))"

definition generateActionItemGoals :: "GoalGenerationContext \<Rightarrow> Goal list" where
  "generateActionItemGoals context =
     (let openItems = filter (\<lambda>i. ai_status i = Pending \<or> ai_status i = Overdue)
                        (md_actionItems (ctx_mergedData context));
          theirItems = filter (\<lambda>i. ai_owner i = Theirs) openItems;
          ourItems = filter (\<lambda>i. ai_owner i = Ours) openItems;
          overdueTheirs = filter (\<lambda>i. ai_status i = Overdue) theirItems;
          pendingTheirs = filter (\<lambda>i. ai_status i = Pending) theirItems
      in
        (if length overdueTheirs > 0
         then [\<lparr> g_id = [], g_priority = 1,
                  g_title = ''Follow up on overdue customer action items'',
                  g_rationale = showNat (length overdueTheirs) @ '' items are past due: ''
                                @ join ''; '' (map ai_description (take 3 overdueTheirs)),
                  g_suggestedApproach =
                    Some ''Ask for status update and offer assistance if blocked'',
                  g_relatedRisks = None,
                  g_relatedActionItems = Some (map ai_id overdueTheirs) \<rparr>]
         else [])
        @ (if length pendingTheirs > 0 \<and> length overdueTheirs = 0
           then [\<lparr> g_id = [], g_priority = 3,
                    g_title = ''Check status on pending customer items'',
                    g_rationale = showNat (length pendingTheirs)
                                  @ '' items pending on customer side'',
                    g_suggestedApproach = None,
                    g_relatedRisks = None,
                    g_relatedActionItems = Some (map ai_id pendingTheirs) \<rparr>]
           else [])
        @ (if length (filter (\<lambda>i. ai_status i = Overdue) ourItems) > 0
           then [\<lparr> g_id = [], g_priority = 2,
                    g_title = ''Deliver on our overdue commitments'',
                    g_rationale =
                      ''We have overdue items - address these to maintain credibility'',
                    g_suggestedApproach =
                      Some ''Either complete before the call or set new expectations'',
                    g_relatedRisks = None,
                    g_relatedActionItems = None \<rparr>]
           else []))"

definition generateStakeholderGoals :: "GoalGenerationContext \<Rightarrow> Goal list" where
  "generateStakeholderGoals context =
     (let profiles = map snd (ctx_participants context);
          hasEconomicBuyer = list_ex (\<lambda>p. p_role p = EconomicBuyer) profiles;
          blockers = filter (\<lambda>p. p_role p = Blocker) profiles
      in
        (if \<not> hasEconomicBuyer \<and> length profiles \<ge> 3
         then [\<lparr> g_id = [], g_priority = 2,
                  g_title = ''Get introduction to economic buyer'',
                  g_rationale =
                    ''No budget holder engaged yet - critical for deal progression'',
                  g_suggestedApproach =
                    Some ''Ask champion for intro to person who approves budget'',
                  g_relatedRisks = None,
                  g_relatedActionItems = None \<rparr>]
         else [])
        @ (if length blockers > 0
           then [\<lparr> g_id = [], g_priority = 2,
                    g_title = ''Address concerns of skeptical stakeholders'',
                    g_rationale = showNat (length blockers) @ '' potential blocker(s) identified'',
                    g_suggestedApproach =
                      Some ''Proactively ask about and address their concerns'',
                    g_relatedRisks = None,
                    g_relatedActionItems = None \<rparr>]
           else [])
        @ (case find (\<lambda>p. p_role p = Champion) profiles of
             Some champion \<Rightarrow>
               [\<lparr> g_id = [], g_priority = 4,
                   g_title = ''Equip champion with internal selling points'',
                   g_rationale = ''Champions need ammunition to advocate internally'',
                   g_suggestedApproach =
                     Some ''Share ROI data, case studies, or talking points'',
                   g_relatedRisks = None,
                   g_relatedActionItems = None \<rparr>]
           | None \<Rightarrow> []))"

text \<open>The title key of \<open>deduplicateGoals\<close>: \<open>goal.title.toLowerCase().slice(0, 30)\<close>.\<close>

definition titleKey :: "Goal \<Rightarrow> string" where
  "titleKey goal = slice (toLowerCase (g_title goal)) 0 30"

text \<open>The loop of \<open>deduplicateGoals\<close> with its set of keys seen so far.\<close>

fun dedupLoop :: "string list \<Rightarrow> Goal list \<Rightarrow> Goal list" where
  "dedupLoop seen [] = []"
| "dedupLoop seen (goal # rest) =
     (let key = titleKey goal
      in if key \<notin> set seen then goal # dedupLoop (key # seen) rest
         else dedupLoop seen rest)"

definition deduplicateGoals :: "Goal list \<Rightarrow> Goal list" where
  "deduplicateGoals gs = dedupLoop [] gs"

text \<open>The goals of the four categories in order, numbered \<open>goal-1\<close>, \<open>goal-2\<close>, ...\<close>

definition numberGoals :: "Goal list \<Rightarrow> Goal list" where
  "numberGoals gs =
     map (\<lambda>(i, goal). goal\<lparr> g_id := ''goal-'' @ showNat (i + 1) \<rparr>) (enumerate 0 gs)"

definition allGoals :: "GoalGenerationContext \<Rightarrow> Goal list" where
  "allGoals context =
     numberGoals (generateStageGoals context @ generateRiskGoals context
                  @ generateActionItemGoals context @ generateStakeholderGoals context)"

definition generateGoals :: "GoalGenerationContext \<Rightarrow> Goal list" where
  "generateGoals context =
     (let deduped = deduplicateGoals (allGoals context);
          sorted = sort_key g_priority deduped
      in take 5 sorted)"

subsection \<open>The talking-point generator\<close>

datatype TalkingPointCategory =
  Opener | GoalSupport | RiskMitigation | StakeholderSpecific | ActionFollowUp
  | ValueProposition | NextSteps

record TalkingPoint =
  tp_id :: string
  tp_category :: TalkingPointCategory
  tp_point :: string
  tp_context :: "string option"
  tp_suggestedPhrasing :: "string option"
  tp_relatedGoalId :: "string option"
  tp_relatedParticipant :: "string option"
  tp_priority :: nat

record TalkingPointContext = GoalGenerationContext +
  ctx_goals :: "Goal list"

definition formatDaysAgo :: "int \<Rightarrow> string" where
  "formatDaysAgo days =
     (if days = 0 then ''today''
      else if days = 1 then ''yesterday''
      else if days < 7 then showInt days @ '' days ago''
      else if days < 14 then ''last week''
      else if days < 30 then showInt (days div 7) @ '' weeks ago''
      else showInt (days div 30) @ '' months ago'')"

definition momentumText :: "Momentum \<Rightarrow> string" where
  "momentumText m =
     (case m of Accelerating \<Rightarrow> ''accelerating'' | Stable \<Rightarrow> ''stable''
      | Stalling \<Rightarrow> ''stalling'' | AtRisk \<Rightarrow> ''at-risk'')"

text \<open>
  The category generators return points without an id; in the model the id is empty
  until \<open>generateTalkingPoints\<close> numbers them.
\<close>

definition generateOpeners :: "TalkingPointContext \<Rightarrow> TalkingPoint list" where
  "generateOpeners context =
     (let analysis = ctx_analysis context;
          mergedData = ctx_mergedData context;
          account = ctx_account context;
          stage = (case pa_dealStage account of Some x \<Rightarrow> toLowerCase x | None \<Rightarrow> [])
      in
        (if daysSinceLastContact analysis < 14 \<and> length (md_timeline mergedData) > 0
         then
           (let lastEvent = last (md_timeline mergedData)
            in [\<lparr> tp_id = [], tp_category = Opener,
                    tp_point = ''Reference last interaction: '' @ te_title lastEvent,
                    tp_context = Some (''Last touchpoint was ''
                                       @ showInt (daysSinceLastContact analysis) @ '' days ago''),
                    tp_suggestedPhrasing =
                      Some (''\"Great to reconnect - I wanted to follow up on our ''
                            @ (if te_type lastEvent = EvCall then ''conversation'' else ''meeting'')
                            @ '' from '' @ formatDaysAgo (daysSinceLastContact analysis)
                            @ ''...\"''),
                    tp_relatedGoalId = None, tp_relatedParticipant = None,
                    tp_priority = 1 \<rparr>])
         else [])
        @ (if momentum analysis = Accelerating
           then [\<lparr> tp_id = [], tp_category = Opener,
                    tp_point = ''Acknowledge positive momentum'',
                    tp_context = Some ''Account shows accelerating engagement'',
                    tp_suggestedPhrasing =
                      Some ''\"The team has been making great progress together...\"'',
                    tp_relatedGoalId = None, tp_relatedParticipant = None,
                    tp_priority = 2 \<rparr>]
           else if momentum analysis = Stalling \<or> momentum analysis = AtRisk
           then [\<lparr> tp_id = [], tp_category = Opener,
                    tp_point = ''Re-establish engagement'',
                    tp_context = Some (''Account momentum is '' @ momentumText (momentum analysis)),
                    tp_suggestedPhrasing =
                      Some ''\"I wanted to reconnect and make sure we're aligned on priorities...\"'',
                    tp_relatedGoalId = None, tp_relatedParticipant = None,
                    tp_priority = 1 \<rparr>]
           else [])
        @ (if str_includes stage ''poc'' \<or> str_includes stage ''pilot''
           then [\<lparr> tp_id = [], tp_category = Opener,
                    tp_point = ''POC progress check'',
                    tp_context = None,
                    tp_suggestedPhrasing =
                      Some ''\"I'm eager to hear how the evaluation is going from your perspective...\"'',
                    tp_relatedGoalId = None, tp_relatedParticipant = None,
                    tp_priority = 2 \<rparr>]
           else []))"

definition goalSupportPoints :: "Goal \<Rightarrow> TalkingPoint list" where
  "goalSupportPoints goal =
     (if g_priority goal = 1
      then [\<lparr> tp_id = [], tp_category = GoalSupport,
               tp_point = g_title goal,
               tp_context = Some (g_rationale goal),
               tp_suggestedPhrasing =
                 (if truthy (g_suggestedApproach goal)
                  then Some (''Approach: '' @ the (g_suggestedApproach goal))
                  else None),
               tp_relatedGoalId = Some (g_id goal), tp_relatedParticipant = None,
               tp_priority = 1 \<rparr>]
      else [])
     @ (if truthy (g_suggestedApproach goal)
        then [\<lparr> tp_id = [], tp_category = GoalSupport,
                 tp_point = ''Support: '' @ g_title goal,
                 tp_context = g_suggestedApproach goal,
                 tp_suggestedPhrasing = None,
                 tp_relatedGoalId = Some (g_id goal), tp_relatedParticipant = None,
                 tp_priority = (if g_priority goal \<le> 2 then 2 else 3) \<rparr>]
        else [])"

definition generateGoalSupportPoints :: "TalkingPointContext \<Rightarrow> TalkingPoint list" where
  "generateGoalSupportPoints context = concat (map goalSupportPoints (take 3 (ctx_goals context)))"

text \<open>The fixed table of \<open>getRiskPhrasing\<close>, read at the risk ids of the analyzer.\<close>

definition getRiskPhrasing :: "string \<Rightarrow> string option" where
  "getRiskPhrasing riskId =
     map_of
       [(''risk-single-thread'', ''\"Who else on your team should we be engaging with?\"''),
        (''risk-no-champion'',
         ''\"Is there someone on your side who's been driving this internally?\"''),
        (''risk-stalled-momentum'',
         ''\"I want to make sure we're moving at the right pace for your timeline...\"''),
        (''risk-overdue-actions'',
         ''\"I noticed we have some open items - what can we do to help move those forward?\"'')]
       riskId"

definition riskMitigationPoints :: "Risk \<Rightarrow> TalkingPoint list" where
  "riskMitigationPoints risk =
     (if rk_severity risk = High
      then [\<lparr> tp_id = [], tp_category = RiskMitigation,
               tp_point = ''Address risk: '' @ rk_description risk,
               tp_context = rk_mitigationSuggestion risk,
               tp_suggestedPhrasing = getRiskPhrasing (rk_id risk),
               tp_relatedGoalId = None, tp_relatedParticipant = None,
               tp_priority = 1 \<rparr>]
      else if rk_severity risk = Medium
      then [\<lparr> tp_id = [], tp_category = RiskMitigation,
               tp_point = ''Probe: '' @ rk_description risk,
               tp_context = rk_mitigationSuggestion risk,
               tp_suggestedPhrasing = None,
               tp_relatedGoalId = None, tp_relatedParticipant = None,
               tp_priority = 2 \<rparr>]
      else [])"

definition generateRiskMitigationPoints :: "TalkingPointContext \<Rightarrow> TalkingPoint list" where
  "generateRiskMitigationPoints context =
     concat (map riskMitigationPoints (risks (ctx_analysis context)))"

definition nameOrEmail :: "ParticipantProfile \<Rightarrow> string" where
  "nameOrEmail profile = (if p_name profile \<noteq> [] then p_name profile else p_email profile)"

definition stakeholderPoints :: "ParticipantProfile \<Rightarrow> TalkingPoint list" where
  "stakeholderPoints profile =
     (if p_role profile = Champion
      then [\<lparr> tp_id = [], tp_category = StakeholderSpecific,
               tp_point = ''Strengthen champion relationship with '' @ nameOrEmail profile,
               tp_context = Some ''Champions need to feel supported and equipped'',
               tp_suggestedPhrasing =
                 Some ''\"What would be most helpful for your internal discussions?\"'',
               tp_relatedGoalId = None, tp_relatedParticipant = Some (p_email profile),
               tp_priority = 2 \<rparr>]
      else [])
     @ (if p_role profile = Blocker
        then [\<lparr> tp_id = [], tp_category = StakeholderSpecific,
                 tp_point = ''Address '' @ nameOrEmail profile @ [CHR 0x27]
                            @ ''s concerns directly'',
                 tp_context = Some ''Potential blocker identified - proactively engage'',
                 tp_suggestedPhrasing =
                   Some ''\"I want to make sure we address any concerns you might have...\"'',
                 tp_relatedGoalId = None, tp_relatedParticipant = Some (p_email profile),
                 tp_priority = 1 \<rparr>]
        else [])
     @ (if p_role profile = EconomicBuyer
        then [\<lparr> tp_id = [], tp_category = StakeholderSpecific,
                 tp_point = ''Emphasize ROI and business impact for '' @ nameOrEmail profile,
                 tp_context = Some ''Economic buyer focuses on value and risk'',
                 tp_suggestedPhrasing =
                   Some ''\"From a business perspective, here's the impact we're seeing...\"'',
                 tp_relatedGoalId = None, tp_relatedParticipant = Some (p_email profile),
                 tp_priority = 1 \<rparr>]
        else [])
     @ (if p_role profile = TechnicalEvaluator
        then [\<lparr> tp_id = [], tp_category = StakeholderSpecific,
                 tp_point = ''Provide technical depth for '' @ nameOrEmail profile,
                 tp_context = Some ''Technical evaluators need specifics'',
                 tp_suggestedPhrasing =
                   Some ''\"Happy to dive deeper into the architecture if helpful...\"'',
                 tp_relatedGoalId = None, tp_relatedParticipant = Some (p_email profile),
                 tp_priority = 2 \<rparr>]
        else [])
     @ (case p_whatTheyCareAbout profile of
          None \<Rightarrow> []
        | Some topics \<Rightarrow>
            if length topics > 0
            then [\<lparr> tp_id = [], tp_category = StakeholderSpecific,
                     tp_point = ''Address ''
                                @ (if p_name profile \<noteq> [] then p_name profile else ''participant'')
                                @ [CHR 0x27] @ ''s priorities: ''
                                @ join '' and '' (take 2 topics),
                     tp_context = None,
                     tp_suggestedPhrasing = None,
                     tp_relatedGoalId = None, tp_relatedParticipant = Some (p_email profile),
                     tp_priority = 2 \<rparr>]
            else [])"

definition generateStakeholderPoints :: "TalkingPointContext \<Rightarrow> TalkingPoint list" where
  "generateStakeholderPoints context =
     concat (map stakeholderPoints (map snd (ctx_participants context)))"

definition generateActionFollowUpPoints :: "TalkingPointContext \<Rightarrow> TalkingPoint list" where
  "generateActionFollowUpPoints context =
     (let openItems = filter (\<lambda>i. ai_status i = Pending \<or> ai_status i = Overdue)
                        (md_actionItems (ctx_mergedData context));
          overdueTheirs = filter (\<lambda>i. ai_owner i = Theirs \<and> ai_status i = Overdue) openItems;
          overdueOurs = filter (\<lambda>i. ai_owner i = Ours \<and> ai_status i = Overdue) openItems;
          pendingTheirs = filter (\<lambda>i. ai_owner i = Theirs \<and> ai_status i = Pending) openItems
      in
        (case overdueTheirs of
           [] \<Rightarrow> []
         | item # _ \<Rightarrow>
             [\<lparr> tp_id = [], tp_category = ActionFollowUp,
                 tp_point = ''Follow up on: '' @ ai_description item,
                 tp_context = Some (''This item is overdue by ''
                                    @ (case ai_daysOverdue item of
                                         None \<Rightarrow> ''several'' | Some n \<Rightarrow> showInt n)
                                    @ '' days''),
                 tp_suggestedPhrasing =
                   Some ''\"I wanted to check in on [item] - is there anything blocking progress that we can help with?\"'',
                 tp_relatedGoalId = None, tp_relatedParticipant = None,
                 tp_priority = 1 \<rparr>])
        @ (case overdueOurs of
             [] \<Rightarrow> []
           | item # _ \<Rightarrow>
               [\<lparr> tp_id = [], tp_category = ActionFollowUp,
                   tp_point = ''Acknowledge our overdue item: '' @ ai_description item,
                   tp_context = Some ''Maintain credibility by addressing our delays'',
                   tp_suggestedPhrasing =
                     Some ''\"I want to acknowledge we're behind on [item] - here's our updated plan...\"'',
                   tp_relatedGoalId = None, tp_relatedParticipant = None,
                   tp_priority = 1 \<rparr>])
        @ (if length pendingTheirs > 0 \<and> length overdueTheirs = 0
           then [\<lparr> tp_id = [], tp_category = ActionFollowUp,
                    tp_point = ''Check status on '' @ showNat (length pendingTheirs)
                               @ '' pending item(s)'',
                    tp_context = Some ''Keep track of customer commitments'',
                    tp_suggestedPhrasing = None,
                    tp_relatedGoalId = None, tp_relatedParticipant = None,
                    tp_priority = 3 \<rparr>]
           else []))"

definition generateValuePoints :: "TalkingPointContext \<Rightarrow> TalkingPoint list" where
  "generateValuePoints context =
     (let analysis = ctx_analysis context;
          stage = (case pa_dealStage (ctx_account context) of
                     Some x \<Rightarrow> toLowerCase x | None \<Rightarrow> [])
      in
        (if str_includes stage ''poc'' \<or> str_includes stage ''pilot'' \<or> str_includes stage ''trial''
         then [\<lparr> tp_id = [], tp_category = ValueProposition,
                  tp_point = ''Reinforce value demonstrated in evaluation'',
                  tp_context = Some ''Connect POC results to business outcomes'',
                  tp_suggestedPhrasing =
                    Some ''\"Based on what we've seen so far, the impact on [metric] has been...\"'',
                  tp_relatedGoalId = None, tp_relatedParticipant = None,
                  tp_priority = 2 \<rparr>]
         else [])
        @ (if momentum analysis = AtRisk \<or> momentum analysis = Stalling
           then [\<lparr> tp_id = [], tp_category = ValueProposition,
                    tp_point = ''Re-emphasize core value proposition'',
                    tp_context = Some ''Account needs re-engagement on value'',
                    tp_suggestedPhrasing =
                      Some ''\"I want to make sure we're still aligned on the key problems we're solving...\"'',
                    tp_relatedGoalId = None, tp_relatedParticipant = None,
                    tp_priority = 1 \<rparr>]
           else [])
        @ (if str_includes stage ''negotiation'' \<or> str_includes stage ''proposal''
              \<or> str_includes stage ''contract''
           then [\<lparr> tp_id = [], tp_category = ValueProposition,
                    tp_point = ''Quantify ROI for final decision'',
                    tp_context = Some ''Economic justification for procurement'',
                    tp_suggestedPhrasing =
                      Some ''\"Here's how we're calculating the return on this investment...\"'',
                    tp_relatedGoalId = None, tp_relatedParticipant = None,
                    tp_priority = 2 \<rparr>]
           else []))"

definition generateNextStepsPoints :: "TalkingPointContext \<Rightarrow> TalkingPoint list" where
  "generateNextStepsPoints context =
     (let analysis = ctx_analysis context;
          stage = (case pa_dealStage (ctx_account context) of
                     Some x \<Rightarrow> toLowerCase x | None \<Rightarrow> []);
          profiles = map snd (ctx_participants context)
      in
        [\<lparr> tp_id = [], tp_category = NextSteps,
            tp_point = ''Propose specific next step with timeline'',
            tp_context = Some ''Never leave a meeting without a clear next action'',
            tp_suggestedPhrasing =
              Some ''\"For next steps, I'd suggest we [action] by [date]. Does that work?\"'',
            tp_relatedGoalId = None, tp_relatedParticipant = None,
            tp_priority = 2 \<rparr>]
        @ (if str_includes stage ''discovery'' \<or> str_includes stage ''qualification''
           then [\<lparr> tp_id = [], tp_category = NextSteps,
                    tp_point = ''Propose technical deep-dive or demo'',
                    tp_context = None,
                    tp_suggestedPhrasing =
                      Some ''\"Would it be helpful to schedule a technical session with your team?\"'',
                    tp_relatedGoalId = None, tp_relatedParticipant = None,
                    tp_priority = 2 \<rparr>]
           else [])
        @ (if (str_includes stage ''poc'' \<or> str_includes stage ''pilot'')
              \<and> \<not> list_ex (\<lambda>p. p_role p = EconomicBuyer) profiles
           then [\<lparr> tp_id = [], tp_category = NextSteps,
                    tp_point = ''Request executive briefing'',
                    tp_context = Some ''No economic buyer engaged yet'',
                    tp_suggestedPhrasing =
                      Some ''\"Would it make sense to schedule a brief update with [executive] before we conclude the evaluation?\"'',
                    tp_relatedGoalId = None, tp_relatedParticipant = None,
                    tp_priority = 1 \<rparr>]
           else [])
        @ (if str_includes stage ''negotiation'' \<or> str_includes stage ''contract''
           then [\<lparr> tp_id = [], tp_category = NextSteps,
                    tp_point = ''Propose implementation kickoff date'',
                    tp_context = Some ''Create urgency toward close'',
                    tp_suggestedPhrasing =
                      Some ''\"If we can finalize by [date], we could kick off implementation on [date].\"'',
                    tp_relatedGoalId = None, tp_relatedParticipant = None,
                    tp_priority = 1 \<rparr>]
           else [])
        @ (if daysSinceLastContact analysis > 14
           then [\<lparr> tp_id = [], tp_category = NextSteps,
                    tp_point = ''Establish regular touchpoint cadence'',
                    tp_context = Some (showInt (daysSinceLastContact analysis)
                                       @ '' days since last contact''),
                    tp_suggestedPhrasing =
                      Some ''\"To keep momentum, should we set up a regular check-in cadence?\"'',
                    tp_relatedGoalId = None, tp_relatedParticipant = None,
                    tp_priority = 2 \<rparr>]
           else []))"

text \<open>The points of the seven categories in order, numbered \<open>tp-1\<close>, \<open>tp-2\<close>, ...\<close>

definition numberPoints :: "TalkingPoint list \<Rightarrow> TalkingPoint list" where
  "numberPoints ps =
     map (\<lambda>(i, point). point\<lparr> tp_id := ''tp-'' @ showNat (i + 1) \<rparr>) (enumerate 0 ps)"

definition allPoints :: "TalkingPointContext \<Rightarrow> TalkingPoint list" where
  "allPoints context =
     generateOpeners context @ generateGoalSupportPoints context
     @ generateRiskMitigationPoints context @ generateStakeholderPoints context
     @ generateActionFollowUpPoints context @ generateValuePoints context
     @ generateNextStepsPoints context"

definition generateTalkingPoints :: "TalkingPointContext \<Rightarrow> TalkingPoint list" where
  "generateTalkingPoints context = sort_key tp_priority (numberPoints (allPoints context))"

subsection \<open>The competitor-mention extractor\<close>

datatype MentionSource = SrcTranscript | SrcSlack | SrcCalendar | SrcResearch

record CompetitorMention =
  cm_id :: string
  cm_competitor :: string
  cm_context :: string
  cm_sentiment :: Sentiment
  cm_source :: MentionSource
  cm_sourceId :: "string option"
  cm_date :: "int option"

text \<open>The competitor dictionary, in the order in which \<open>Object.entries\<close> lists it.\<close>

definition KNOWN_COMPETITORS :: "(string \<times> string list) list" where
  "KNOWN_COMPETITORS =
     [(''Salesforce'', [''salesforce'', ''sfdc'', ''sales cloud'', ''service cloud'']),
      (''Microsoft'', [''microsoft'', ''msft'', ''dynamics'', ''azure'', ''teams'']),
      (''Google'', [''google'', ''gcp'', ''google cloud'', ''workspace'']),
      (''AWS'', [''aws'', ''amazon web services'', ''amazon'']),
      (''Snowflake'', [''snowflake'']),
      (''Databricks'', [''databricks'']),
      (''HubSpot'', [''hubspot'']),
      (''Zendesk'', [''zendesk'']),
      (''ServiceNow'', [''servicenow'', ''service now'']),
      (''Workday'', [''workday'']),
      (''SAP'', [''sap'', ''s/4hana'']),
      (''Oracle'', [''oracle'', ''oci'']),
      (''Slack'', [''slack'']),
      (''Zoom'', [''zoom'']),
      (''Datadog'', [''datadog'']),
      (''Splunk'', [''splunk'']),
      (''MongoDB'', [''mongodb'', ''mongo'']),
      (''Elastic'', [''elastic'', ''elasticsearch'']),
      (''Confluent'', [''confluent'', ''kafka'']),
      (''HashiCorp'', [''hashicorp'', ''terraform'', ''vault''])]"

definition COMPETITIVE_SIGNALS :: "string list" where
  "COMPETITIVE_SIGNALS =
     [''competitor'', ''alternative'', ''also looking at'', ''evaluating'', ''compared to'',
      ''vs'', ''versus'', ''instead of'', ''switch from'', ''migrate from'', ''replace'',
      ''benchmark'', ''competitive'', ''other vendors'', ''other options'']"

text \<open>
  In the two context windows \<open>Math.max(0, aliasIndex - n)\<close> is the truncating
  subtraction of \<open>nat\<close>.
\<close>

definition analyzeCompetitorSentiment :: "string \<Rightarrow> string \<Rightarrow> Sentiment" where
  "analyzeCompetitorSentiment text competitorAlias =
     (let lowerText = toLowerCase text
      in case indexOf lowerText (toLowerCase competitorAlias) of
           None \<Rightarrow> Neutral
         | Some aliasIndex \<Rightarrow>
             let contextStart = aliasIndex - 100;
                 contextEnd = min (length text) (aliasIndex + length competitorAlias + 100);
                 context = slice lowerText contextStart contextEnd;
                 hasPositive =
                   list_ex (\<lambda>signal. str_includes context signal)
                     [''prefer'', ''like'', ''better'', ''love'', ''great experience'',
                      ''already using'', ''happy with'', ''satisfied''];
                 hasNegative =
                   list_ex (\<lambda>signal. str_includes context signal)
                     [''issue'', ''problem'', ''challenge'', ''frustrated'', ''expensive'',
                      ''difficult'', ''complex'', ''migrate from'', ''switch from'',
                      ''moving away'', ''replacing'', ''limitations'']
             in if hasPositive \<and> \<not> hasNegative then Positive
                else if hasNegative \<and> \<not> hasPositive then Negative
                else Neutral)"

text \<open>\<open>s.lastIndexOf(' ')\<close>, which is -1 when there is no space.\<close>

definition lastIndexOfSpace :: "string \<Rightarrow> int" where
  "lastIndexOfSpace s =
     (if CHR '' '' \<in> set s
      then int (length s) - 1 - int (length (takeWhile (\<lambda>c. c \<noteq> CHR '' '') (rev s)))
      else - 1)"

text \<open>\<open>s.slice(0, e)\<close>, where a negative \<open>e\<close> counts from the end.\<close>

definition sliceTo :: "string \<Rightarrow> int \<Rightarrow> string" where
  "sliceTo s e = (if e < 0 then take (nat (int (length s) + e)) s else take (nat e) s)"

definition extractMentionContext :: "string \<Rightarrow> string \<Rightarrow> string" where
  "extractMentionContext text alias =
     (let lowerText = toLowerCase text
      in case indexOf lowerText (toLowerCase alias) of
           None \<Rightarrow> []
         | Some aliasIndex \<Rightarrow>
             let contextStart = aliasIndex - 75;
                 contextEnd = min (length text) (aliasIndex + length alias + 75);
                 context0 = slice text contextStart contextEnd;
                 context1 =
                   (if contextStart > 0
                    then (case indexOf context0 '' '' of
                            None \<Rightarrow> context0
                          | Some firstSpace \<Rightarrow>
                              if firstSpace > 0 \<and> firstSpace < 20
                              then ''...'' @ drop (firstSpace + 1) context0
                              else context0)
                    else context0)
             in if contextEnd < length text
                then (let lastSpace = lastIndexOfSpace context1
                      in if lastSpace > int (length context1) - 20
                         then sliceTo context1 lastSpace @ ''...''
                         else context1)
                else context1)"

text \<open>The loop of \<open>extractGenericCompetitiveContext\<close> over the signal phrases.\<close>

fun genericContextLoop :: "string list \<Rightarrow> string \<Rightarrow> string" where
  "genericContextLoop [] text = []"
| "genericContextLoop (signal # rest) text =
     (case indexOf (toLowerCase text) (toLowerCase signal) of
        Some index \<Rightarrow>
          slice text (index - 50) (min (length text) (index + length signal + 100))
      | None \<Rightarrow> genericContextLoop rest text)"

definition extractGenericCompetitiveContext :: "string \<Rightarrow> string" where
  "extractGenericCompetitiveContext text = genericContextLoop COMPETITIVE_SIGNALS text"

definition eventSource :: "TimelineEvent \<Rightarrow> MentionSource" where
  "eventSource event =
     (if te_type event = EvCall then SrcTranscript
      else if te_type event = EvMeeting then SrcCalendar
      else SrcSlack)"

text \<open>
  The inner loop over the aliases of one competitor stops at the first alias that the
  text contains (\<open>break\<close>); the outer loop goes on to the next competitor.
\<close>

definition firstAlias :: "string \<Rightarrow> string list \<Rightarrow> string option" where
  "firstAlias searchText aliases =
     find (\<lambda>alias. str_includes searchText (toLowerCase alias)) aliases"

text \<open>Whether the text contains some alias of a list.\<close>

definition aliasMatch :: "string \<Rightarrow> string list \<Rightarrow> bool" where
  "aliasMatch searchText aliases =
     list_ex (\<lambda>alias. str_includes searchText (toLowerCase alias)) aliases"

definition knownMatches :: "string \<Rightarrow> (string \<times> string) list" where
  "knownMatches searchText =
     concat (map (\<lambda>(competitor, aliases).
                    case firstAlias searchText aliases of
                      None \<Rightarrow> []
                    | Some alias \<Rightarrow> [(competitor, alias)])
               KNOWN_COMPETITORS)"

definition searchTextOf :: "TimelineEvent \<Rightarrow> string" where
  "searchTextOf event =
     toLowerCase (join '' '' [te_title event,
                              (case te_description event of None \<Rightarrow> [] | Some d \<Rightarrow> d)])"

definition extractMentionsFromEvent :: "TimelineEvent \<Rightarrow> nat \<Rightarrow> CompetitorMention list" where
  "extractMentionsFromEvent event startId =
     (let searchText = searchTextOf event;
          known =
            map (\<lambda>(i, (competitor, alias)).
                   \<lparr> cm_id = ''cm-'' @ showNat (startId + i),
                     cm_competitor = competitor,
                     cm_context = extractMentionContext searchText alias,
                     cm_sentiment = analyzeCompetitorSentiment searchText alias,
                     cm_source = eventSource event,
                     cm_sourceId = Some (te_id event),
                     cm_date = Some (te_date event) \<rparr>)
              (enumerate 0 (knownMatches searchText));
          hasCompetitiveSignal =
            list_ex (\<lambda>signal. str_includes searchText (toLowerCase signal)) COMPETITIVE_SIGNALS
      in if hasCompetitiveSignal \<and> length known = 0
         then known @ [\<lparr> cm_id = ''cm-'' @ showNat (startId + length known),
                          cm_competitor = ''Unknown Competitor'',
                          cm_context = extractGenericCompetitiveContext searchText,
                          cm_sentiment = Neutral,
                          cm_source = eventSource event,
                          cm_sourceId = Some (te_id event),
                          cm_date = Some (te_date event) \<rparr>]
         else known)"

text \<open>The mention loop of \<open>extractCompetitiveIntel\<close> over the timeline.\<close>

fun extractMentions :: "nat \<Rightarrow> TimelineEvent list \<Rightarrow> CompetitorMention list" where
  "extractMentions mentionId [] = []"
| "extractMentions mentionId (event # rest) =
     (let eventMentions = extractMentionsFromEvent event mentionId
      in eventMentions @ extractMentions (mentionId + length eventMentions) rest)"

subsection \<open>The assembler\<close>

record CompanyInfo =
  ci_name :: string
  ci_domain :: string
  ci_description :: "string option"
  ci_industry :: "string option"
  ci_employeeCount :: "int option"
  ci_headquarters :: "string option"

record DataSources =
  src_fireflies :: FirefliesData
  src_slack :: SlackData
  src_calendar :: CalendarData
  src_personInfo :: "(string \<times> PersonInfo) list option"
  src_companyInfo :: "CompanyInfo option"

record AssemblerContext =
  asm_meeting :: Meeting
  asm_accountName :: string
  asm_accountDomain :: string
  asm_daysOfHistory :: "int option"

definition buildAccount :: "int \<Rightarrow> MergedData \<Rightarrow> AccountAnalysis \<Rightarrow> CompanyInfo option \<Rightarrow> Account" where
  "buildAccount now mergedData analysis companyInfo =
     (let account = md_account mergedData;
          baseAccount =
            applyAnalysisToAccount now
              \<lparr> pa_id = Some (case pa_domain account of None \<Rightarrow> ''unknown'' | Some x \<Rightarrow> x),
                pa_name = Some (case pa_name account of None \<Rightarrow> [] | Some x \<Rightarrow> x),
                pa_domain = Some (case pa_domain account of None \<Rightarrow> [] | Some x \<Rightarrow> x),
                pa_dealStage = Some (case pa_dealStage account of
                                       None \<Rightarrow> ''unknown'' | Some x \<Rightarrow> x),
                pa_dealValue = Some (case pa_dealValue account of None \<Rightarrow> 0 | Some x \<Rightarrow> x),
                pa_closeDate = pa_closeDate account,
                pa_lastContactDate =
                  Some (case pa_lastContactDate account of None \<Rightarrow> now | Some x \<Rightarrow> x),
                pa_contacts = pa_contacts account,
                pa_timeline = pa_timeline account,
                pa_openActionItems = pa_openActionItems account,
                pa_risks = [] \<rparr>
              analysis
      in case companyInfo of
           None \<Rightarrow> baseAccount
         | Some info \<Rightarrow>
             baseAccount\<lparr> ac_industry := ci_industry info,
                          ac_employeeCount := ci_employeeCount info,
                          ac_headquarters := ci_headquarters info,
                          ac_notes := (if truthy (ci_description info)
                                       then ci_description info else None) \<rparr>)"

text \<open>
  The result of \<open>assembleDossier\<close>: the intermediate results and the account section of
  the dossier. The other sections of the dossier (participant lists, executive summary,
  strategic insights, formatted talking points, competitive section, metadata) are
  renderings of the intermediate results into strings and are not part of the model.
\<close>

record AssemblerResult =
  ar_account :: Account
  ar_mergedData :: MergedData
  ar_analysis :: AccountAnalysis
  ar_profiles :: "(string \<times> ParticipantProfile) list"
  ar_goals :: "Goal list"
  ar_talkingPoints :: "TalkingPoint list"
  ar_mentions :: "CompetitorMention list"

definition assembleDossier ::
  "(nat \<Rightarrow> string) \<Rightarrow> int \<Rightarrow> AssemblerContext \<Rightarrow> DataSources \<Rightarrow> error + AssemblerResult" where
  "assembleDossier rnd now context sources =
     (case mergeAllData rnd (src_fireflies sources) (src_slack sources) (src_calendar sources)
             \<lparr> accountName = asm_accountName context,
               accountDomain = asm_accountDomain context,
               daysOfHistory = Some (case asm_daysOfHistory context of
                                       None \<Rightarrow> 30 | Some d \<Rightarrow> d) \<rparr> of
        Inl e \<Rightarrow> Inl e
      | Inr mergedData \<Rightarrow>
          let analysis = analyzeAccount now mergedData emptyAnalysisOptions;
              profiles = profileParticipants now (md_participants mergedData)
                           (src_personInfo sources) defaultEnrichmentOptions;
              goalContext = \<lparr> ctx_account = md_account mergedData,
                              ctx_analysis = analysis,
                              ctx_participants = profiles,
                              ctx_mergedData = mergedData,
                              ctx_meetingTitle = Some (mt_title (asm_meeting context)) \<rparr>;
              gs = generateGoals goalContext;
              talkingPointContext = \<lparr> ctx_account = md_account mergedData,
                                      ctx_analysis = analysis,
                                      ctx_participants = profiles,
                                      ctx_mergedData = mergedData,
                                      ctx_meetingTitle = Some (mt_title (asm_meeting context)),
                                      ctx_goals = gs \<rparr>;
              talkingPoints = generateTalkingPoints talkingPointContext;
              competitorMentions = extractMentions 1 (md_timeline mergedData);
              account = buildAccount now mergedData analysis (src_companyInfo sources)
          in Inr \<lparr> ar_account = account,
                   ar_mergedData = mergedData,
                   ar_analysis = analysis,
                   ar_profiles = profiles,
                   ar_goals = gs,
                   ar_talkingPoints = talkingPoints,
                   ar_mentions = competitorMentions \<rparr>)"

subsection \<open>The dossier and its validator\<close>

record ExecutiveSummary =
  whyThisMeetingMatters :: string
  topGoals :: "string list"
  redFlags :: "string list"

record StrategicInsights =
  whatsWorking :: "string list"
  needsAttention :: "string list"
  questionsToAsk :: "string list"
  thingsToAvoid :: "string list"

record DossierCompetitiveIntel =
  dci_competitorsDetected :: "string list"
  dci_competitorMentions :: "string list option"
  dci_watchList :: "string list"
  dci_notes :: "string option"

record DossierMetadata =
  generatedAt :: int
  generatedBy :: string
  dataSourcesUsed :: "string list"
  dataSourcesFailed :: "string list option"
  processingTimeMs :: "int option"
  version :: string

record Dossier =
  ds_meeting :: Meeting
  ds_account :: Account
  ds_externalParticipants :: "Participant list"
  ds_internalParticipants :: "InternalParticipant list"
  ds_missingStakeholders :: "string list option"
  ds_executiveSummary :: ExecutiveSummary
  ds_strategicInsights :: StrategicInsights
  ds_talkingPoints :: "string list"
  ds_competitiveIntel :: "DossierCompetitiveIntel option"
  ds_metadata :: DossierMetadata

record ValidationResult =
  isValid :: bool
  issues :: "string list"

definition validateDossier :: "Dossier \<Rightarrow> ValidationResult" where
  "validateDossier dossier =
     (let issues1 = (if mt_title (ds_meeting dossier) = [] then [''Missing meeting title''] else []);
          issues2 = issues1
            @ (if ac_name (ds_account dossier) = [] then [''Missing account name''] else []);
          issues3 = issues2
            @ (if length (ds_externalParticipants dossier) = 0
               then [''No external participants identified''] else []);
          issues4 = issues3
            @ (if length (topGoals (ds_executiveSummary dossier)) = 0
               then [''No goals generated''] else []);
          issues5 = issues4
            @ (if length (ds_talkingPoints dossier) = 0
               then [''No talking points generated''] else [])
      in \<lparr> isValid = (length issues5 = 0), issues = issues5 \<rparr>)"

section \<open>Example inputs\<close>

definition exampleOptions :: MergeOptions where
  "exampleOptions = \<lparr> accountName = ''Acme'', accountDomain = ''acme.com'', daysOfHistory = None \<rparr>"

definition noFireflies :: FirefliesData where
  "noFireflies = \<lparr> transcripts = [] \<rparr>"

definition noSlack :: SlackData where
  "noSlack = \<lparr> mentions = [], messages = [] \<rparr>"

definition noCalendar :: CalendarData where
  "noCalendar = \<lparr> events = [] \<rparr>"

text \<open>The bundle of a successful merge; the empty initial bundle when the merge threw.\<close>

definition mergedOf :: "error + MergedData \<Rightarrow> MergedData" where
  "mergedOf r = (case r of Inl e \<Rightarrow> initialMergedData exampleOptions | Inr md \<Rightarrow> md)"

text \<open>
  One calendar meeting at time 0 with two customer attendees, analysed 31 days later.
\<close>

definition staleCalendar :: CalendarData where
  "staleCalendar =
     \<lparr> events =
         [\<lparr> ce_id = ''c1'', ce_summary = ''Quarterly review'', ce_description = None,
             ce_start = 0, ce_end = 3600000,
             ce_attendees = [\<lparr> ca_email = ''ann@acme.com'', ca_displayName = Some ''Ann'' \<rparr>,
                             \<lparr> ca_email = ''raj@acme.com'', ca_displayName = Some ''Raj'' \<rparr>] \<rparr>] \<rparr>"

definition staleBundle :: MergedData where
  "staleBundle = mergedOf (mergeAllData (\<lambda>k. []) noFireflies noSlack staleCalendar exampleOptions)"

text \<open>
  A goal-generation context whose analysis carries the same medium risk twice, so that
  two generated goals share a title.
\<close>

definition budgetRisk :: Risk where
  "budgetRisk =
     \<lparr> rk_id = ''risk-budget'', rk_type = RtBudget, rk_severity = Medium,
       rk_description = ''Budget freeze announced'', rk_detectedDate = 0,
       rk_mitigationSuggestion = None \<rparr>"

definition quietAnalysis :: AccountAnalysis where
  "quietAnalysis =
     \<lparr> momentum = Stable, momentumScore = 50, engagementVelocity = VelLow, daysInStage = 0,
       daysSinceLastContact = 5, risks = [], healthScore = 50, insights = [] \<rparr>"

definition duplicateRiskContext :: GoalGenerationContext where
  "duplicateRiskContext =
     \<lparr> ctx_account = md_account (initialMergedData exampleOptions),
       ctx_analysis = quietAnalysis\<lparr> risks := [budgetRisk, budgetRisk] \<rparr>,
       ctx_participants = [],
       ctx_mergedData = initialMergedData exampleOptions,
       ctx_meetingTitle = None \<rparr>"

definition budgetGoal :: Goal where
  "budgetGoal =
     \<lparr> g_id = ''goal-2'', g_priority = 3,
       g_title = ''Discuss: Budget freeze announced'',
       g_rationale = ''Medium risk worth addressing proactively'',
       g_suggestedApproach = None,
       g_relatedRisks = Some [''risk-budget''],
       g_relatedActionItems = None \<rparr>"

text \<open>
  A talking-point context with one overdue item of the customer, one overdue item of
  ours and one pending item of the customer.
\<close>

definition questionnaireItem :: ActionItem where
  "questionnaireItem =
     \<lparr> ai_id = ''ai-1'', ai_description = ''Send security questionnaire'', ai_owner = Theirs,
       ai_assignee = None, ai_dueDate = Some 0, ai_createdDate = 0, ai_status = Overdue,
       ai_source = None, ai_daysOverdue = Some 5 \<rparr>"

definition pricingItem :: ActionItem where
  "pricingItem =
     \<lparr> ai_id = ''ai-2'', ai_description = ''Share pricing proposal'', ai_owner = Ours,
       ai_assignee = None, ai_dueDate = Some 0, ai_createdDate = 0, ai_status = Overdue,
       ai_source = None, ai_daysOverdue = Some 5 \<rparr>"

definition legalItem :: ActionItem where
  "legalItem =
     \<lparr> ai_id = ''ai-3'', ai_description = ''Loop in legal'', ai_owner = Theirs,
       ai_assignee = None, ai_dueDate = None, ai_createdDate = 0, ai_status = Pending,
       ai_source = None, ai_daysOverdue = None \<rparr>"

definition talkingContext :: "AccountAnalysis \<Rightarrow> MergedData \<Rightarrow> TalkingPointContext" where
  "talkingContext analysis data =
     \<lparr> ctx_account = md_account data,
       ctx_analysis = analysis,
       ctx_participants = [],
       ctx_mergedData = data,
       ctx_meetingTitle = None,
       ctx_goals = [] \<rparr>"

definition bothOverdueContext :: TalkingPointContext where
  "bothOverdueContext =
     talkingContext quietAnalysis
       ((initialMergedData exampleOptions)
          \<lparr> md_actionItems := [questionnaireItem, pricingItem, legalItem] \<rparr>)"

text \<open>
  Talking-point contexts with one call in the timeline, 14 and 13 days after it.
\<close>

definition kickoffCall :: TimelineEvent where
  "kickoffCall =
     \<lparr> te_id = ''ff-t1'', te_date = 0, te_type = EvCall, te_title = ''Kickoff call'',
       te_description = None, te_participants = None, te_duration = Some 30,
       te_transcriptId = Some ''t1'' \<rparr>"

definition contactContext :: "int \<Rightarrow> TalkingPointContext" where
  "contactContext days =
     talkingContext (quietAnalysis\<lparr> daysSinceLastContact := days \<rparr>)
       ((initialMergedData exampleOptions)\<lparr> md_timeline := [kickoffCall] \<rparr>)"

text \<open>A call whose title names two known competitors.\<close>

definition comparisonCall :: TimelineEvent where
  "comparisonCall =
     \<lparr> te_id = ''ff-t2'', te_date = 0, te_type = EvCall,
       te_title = ''Salesforce and Microsoft comparison'',
       te_description = None, te_participants = None, te_duration = Some 30,
       te_transcriptId = Some ''t2'' \<rparr>"

text \<open>
  Two transcripts that name the same customer address in different letter case.
\<close>

definition mixedCaseFireflies :: FirefliesData where
  "mixedCaseFireflies =
     \<lparr> transcripts =
         [\<lparr> ft_id = ''t1'', ft_title = ''Kickoff call'', ft_date = 2 * msPerDay, ft_duration = 30,
             ft_participants = [''Bob@Acme.com'', ''me@runlayer.com''], ft_summary = None,
             ft_actionItems = [] \<rparr>,
          \<lparr> ft_id = ''t2'', ft_title = ''Follow-up call'', ft_date = msPerDay, ft_duration = 30,
             ft_participants = [''bob@acme.com''], ft_summary = None,
             ft_actionItems = [] \<rparr>] \<rparr>"

definition mixedCaseBundle :: MergedData where
  "mixedCaseBundle =
     mergedOf (mergeAllData (\<lambda>k. []) mixedCaseFireflies noSlack noCalendar exampleOptions)"

text \<open>
  A pipeline run ten days after a call whose two action items were due at the time of
  the call: one assigned to the customer, one to us.
\<close>

definition dueItemsSources :: DataSources where
  "dueItemsSources =
     \<lparr> src_fireflies =
         \<lparr> transcripts =
             [\<lparr> ft_id = ''t1'', ft_title = ''Kickoff call'', ft_date = 0, ft_duration = 30,
                 ft_participants = [''bob@acme.com'', ''me@runlayer.com''], ft_summary = None,
                 ft_actionItems =
                   [\<lparr> fai_text = ''Send security questionnaire'',
                       fai_assignee = Some ''bob@acme.com'', fai_dueDate = Some 0 \<rparr>,
                    \<lparr> fai_text = ''Share pricing proposal'',
                       fai_assignee = Some ''me@runlayer.com'', fai_dueDate = Some 0 \<rparr>] \<rparr>] \<rparr>,
       src_slack = noSlack,
       src_calendar = noCalendar,
       src_personInfo = None,
       src_companyInfo = None \<rparr>"

definition exampleAssemblerContext :: AssemblerContext where
  "exampleAssemblerContext =
     \<lparr> asm_meeting = \<lparr> mt_id = ''m1'', mt_title = ''Acme sync'', mt_datetime = 11 * msPerDay,
                        mt_duration = 30,
                        mt_attendees = [\<lparr> at_email = ''bob@acme.com'', at_name = Some ''Bob'' \<rparr>] \<rparr>,
       asm_accountName = ''Acme'',
       asm_accountDomain = ''acme.com'',
       asm_daysOfHistory = None \<rparr>"

text \<open>The action-item ids that the goals of a pipeline result refer to.\<close>

definition relatedActionItemIds :: "error + AssemblerResult \<Rightarrow> string list" where
  "relatedActionItemIds result =
     (case result of
        Inl e \<Rightarrow> []
      | Inr r \<Rightarrow> concat (map (\<lambda>g. case g_relatedActionItems g of None \<Rightarrow> [] | Some ids \<Rightarrow> ids)
                          (ar_goals r)))"

text \<open>A dossier without meeting title, external participants and talking points.\<close>

definition thinDossier :: Dossier where
  "thinDossier =
     \<lparr> ds_meeting = \<lparr> mt_id = ''m1'', mt_title = [], mt_datetime = 0, mt_duration = 30,
                       mt_attendees = [] \<rparr>,
       ds_account = applyAnalysisToAccount 0 (md_account (initialMergedData exampleOptions))
                      quietAnalysis,
       ds_externalParticipants = [],
       ds_internalParticipants = [],
       ds_missingStakeholders = None,
       ds_executiveSummary = \<lparr> whyThisMeetingMatters = ''Meeting with Acme'',
                                topGoals = [''Identify next steps''], redFlags = [] \<rparr>,
       ds_strategicInsights = \<lparr> whatsWorking = [], needsAttention = [], questionsToAsk = [],
                                 thingsToAvoid = [] \<rparr>,
       ds_talkingPoints = [],
       ds_competitiveIntel = None,
       ds_metadata = \<lparr> generatedAt = 0, generatedBy = ''Sovereign Prep v0.1.0'',
                        dataSourcesUsed = [], dataSourcesFailed = None,
                        processingTimeMs = None, version = ''1.0'' \<rparr> \<rparr>"

section \<open>Properties\<close>

subsection \<open>The helpers at sample inputs\<close>

lemma extractDomain_samples:
  "extractDomain ''ann@acme.com'' = Some ''acme.com''"
  "extractDomain ''ann@sales@acme.com'' = Some ''acme.com''"
  "extractDomain ''ann@'' = None"
  "extractDomain ''ann'' = None"
  "isInternalEmail ''me@RunLayer.com''"
  "\<not> isInternalEmail ''ann@acme.com''"
  by code_simp+

lemma regexTest_samples:
  "regexTest [''vp'', ''vice president'', ''svp'', ''evp''] ''VP of Sales''"
  "\<not> regexTest [''manager''] ''Managers''"
  "regexTest [''senior'', ''sr'', ''sr.'', ''principal'', ''staff''] ''Sr. Engineer''"
  "\<not> regexTest [''ceo'', ''cto'', ''cfo'', ''coo'', ''ciso'', ''cio''] ''Director''"
  by code_simp+

lemma formatISODay_samples:
  "formatISODay 0 = ''1970-01-01''"
  "formatISODay (- 1) = ''1969-12-31''"
  "formatISODay 11016 = ''2000-02-29''"
  "formatISODay 20484 = ''2026-01-31''"
  by code_simp+

lemma daysBetween_samples:
  "daysBetween 0 msPerDay = 1"
  "daysBetween 0 (msPerDay + 1) = 2"
  "daysBetween 5 5 = 0"
  "daysBetween msPerDay 0 = 1"
  by code_simp+

subsection \<open>The validator\<close>

text \<open>
  Claim C9. For every dossier, \<open>validateDossier\<close> returns a pair of \<open>isValid\<close> and
  \<open>issues\<close>. Each of the five minimum-content conditions (empty meeting title, empty
  account name, no external participant, no goal in the dossier's goal list
  \<open>executiveSummary.topGoals\<close>, no talking point) has its message in \<open>issues\<close> exactly
  when it is violated, \<open>issues\<close> has as many entries as there are violated conditions
  (nothing stops at the first), and \<open>isValid\<close> is true exactly when \<open>issues\<close> is empty.
\<close>

theorem validateDossier_reports_every_violation:
  "(''Missing meeting title'' \<in> set (issues (validateDossier d))) = (mt_title (ds_meeting d) = [])
   \<and> (''Missing account name'' \<in> set (issues (validateDossier d))) = (ac_name (ds_account d) = [])
   \<and> (''No external participants identified'' \<in> set (issues (validateDossier d)))
       = (ds_externalParticipants d = [])
   \<and> (''No goals generated'' \<in> set (issues (validateDossier d)))
       = (topGoals (ds_executiveSummary d) = [])
   \<and> (''No talking points generated'' \<in> set (issues (validateDossier d)))
       = (ds_talkingPoints d = [])
   \<and> length (issues (validateDossier d))
       = length (filter id [mt_title (ds_meeting d) = [], ac_name (ds_account d) = [],
                            ds_externalParticipants d = [],
                            topGoals (ds_executiveSummary d) = [], ds_talkingPoints d = []])
   \<and> isValid (validateDossier d) = (issues (validateDossier d) = [])"
  by (simp add: validateDossier_def Let_def)

theorem validateDossier_reports_every_violation_witness:
  "issues (validateDossier thinDossier)
     = [''Missing meeting title'', ''No external participants identified'',
        ''No talking points generated'']
   \<and> \<not> isValid (validateDossier thinDossier)"
proof -
  have i: "issues (validateDossier thinDossier)
     = [''Missing meeting title'', ''No external participants identified'',
        ''No talking points generated'']"
    by code_simp
  from validateDossier_reports_every_violation [of thinDossier]
  have "isValid (validateDossier thinDossier) = (issues (validateDossier thinDossier) = [])"
    by blast
  with i show ?thesis by simp
qed

subsection \<open>The momentum score\<close>

lemma calculateMomentumScore_recency_above_14:
  assumes "14 < d"
  shows "calculateMomentumScore now data d = calculateMomentumScore now data 15"
proof -
  have r: "(if d \<le> 3 then (50::int) + 20 else if d \<le> 7 then 50 + 10
            else if d > 14 then 50 - 20 else if d > 30 then 50 - 40 else 50) = 30"
    using assms by simp
  have r15: "(if (15::int) \<le> 3 then (50::int) + 20 else if (15::int) \<le> 7 then 50 + 10
            else if (15::int) > 14 then 50 - 20 else if (15::int) > 30 then 50 - 40 else 50) = 30"
    by simp
  show ?thesis
    unfolding calculateMomentumScore_def Let_def r r15 by (rule refl)
qed

text \<open>
  Claim C2. The claim asks for a recency delta of -40 when the last contact is more than
  30 days back. In \<open>calculateMomentumScore\<close> the branch \<open>> 14\<close> comes first in the
  \<open>else if\<close> chain, so the branch \<open>> 30\<close> is never taken and the delta stays -20. For
  one meeting with two customer attendees, analysed 31 days later, the analysis reports
  31 days since the last contact and the score 50 - 20 = 30, the score of a contact 15
  days back; with the delta -40 it would be 10.
\<close>

theorem momentum_score_31_days_since_contact:
  "daysSinceLastContact (analyzeAccount (31 * msPerDay) staleBundle emptyAnalysisOptions) = 31
   \<and> length (md_participants staleBundle) = 2
   \<and> momentumScore (analyzeAccount (31 * msPerDay) staleBundle emptyAnalysisOptions) = 30
   \<and> calculateMomentumScore (31 * msPerDay) staleBundle 31
       = calculateMomentumScore (31 * msPerDay) staleBundle 15"
  by code_simp

subsection \<open>The analysis of empty sources\<close>

lemma mergeAllData_empty:
  "mergeAllData rnd \<lparr> transcripts = [] \<rparr> \<lparr> mentions = [], messages = [] \<rparr> \<lparr> events = [] \<rparr> options
     = Inr (computeAccountMetrics (initialMergedData options))"
  by (simp add: mergeAllData_def mergeFirefliesData_def mergeSlackData_def mergeCalendarData_def
      deduplicateParticipants_def sortTimeline_def initialMergedData_def)

lemma empty_bundle_fields:
  "md_timeline (computeAccountMetrics (initialMergedData options)) = []"
  "md_participants (computeAccountMetrics (initialMergedData options)) = []"
  "md_actionItems (computeAccountMetrics (initialMergedData options)) = []"
  by (simp_all add: computeAccountMetrics_def initialMergedData_def Let_def)

lemma calculateMomentumScore_empty_bundle:
  assumes "md_timeline data = []" "md_participants data = []" "md_actionItems data = []"
  shows "calculateMomentumScore now data 999 = 20"
  unfolding calculateMomentumScore_def Let_def using assms by simp

lemma detectRisks_empty_bundle:
  assumes "md_participants data = []" "md_actionItems data = []"
  shows "map (\<lambda>r. (rk_id r, rk_severity r)) (detectRisks now data 999 inStage)
         = [(''risk-stale-comm'', High)]
           @ (if inStage > 30 then [(''risk-stuck-stage'', if inStage > 60 then High else Medium)] else [])
           @ [(''risk-single-thread'', Medium)]"
  unfolding detectRisks_def Let_def using assms by simp

text \<open>
  Claim C6. When the transcript, chat and calendar collections are all empty, the merge
  returns a bundle with no participant, and the analysis of it (whatever the analysis
  options and the clock) has \<open>daysSinceLastContact = 999\<close>, the momentum category
  \<open>at-risk\<close>, and among its risks the stale-communication risk with high severity and
  the limited-multithreading risk with medium severity.
\<close>

theorem empty_sources_analysis:
  "case mergeAllData rnd \<lparr> transcripts = [] \<rparr> \<lparr> mentions = [], messages = [] \<rparr>
          \<lparr> events = [] \<rparr> options of
     Inl e \<Rightarrow> False
   | Inr md \<Rightarrow>
       length (md_participants md) = 0
       \<and> daysSinceLastContact (analyzeAccount now md aopts) = 999
       \<and> momentum (analyzeAccount now md aopts) = AtRisk
       \<and> (''risk-stale-comm'', High)
            \<in> set (map (\<lambda>r. (rk_id r, rk_severity r)) (risks (analyzeAccount now md aopts)))
       \<and> (''risk-single-thread'', Medium)
            \<in> set (map (\<lambda>r. (rk_id r, rk_severity r)) (risks (analyzeAccount now md aopts)))"
proof -
  let ?md = "computeAccountMetrics (initialMergedData options)"
  let ?a = "analyzeAccount now ?md aopts"
  have d: "calculateDaysSinceLastContact now (md_timeline ?md) = 999"
    by (simp add: empty_bundle_fields calculateDaysSinceLastContact_def)
  have m: "calculateMomentumScore now ?md 999 = 20"
    by (rule calculateMomentumScore_empty_bundle) (rule empty_bundle_fields)+
  have r: "map (\<lambda>r. (rk_id r, rk_severity r)) (detectRisks now ?md 999 i)
         = [(''risk-stale-comm'', High)]
           @ (if i > 30 then [(''risk-stuck-stage'', if i > 60 then High else Medium)] else [])
           @ [(''risk-single-thread'', Medium)]" for i
    by (rule detectRisks_empty_bundle) (rule empty_bundle_fields)+
  have ds: "daysSinceLastContact ?a = 999"
    unfolding analyzeAccount_def Let_def d by simp
  have mo: "momentum ?a = AtRisk"
    unfolding analyzeAccount_def Let_def d m by (simp add: scoreMomentum_def)
  have rs: "map (\<lambda>r. (rk_id r, rk_severity r)) (risks ?a)
         = [(''risk-stale-comm'', High)]
           @ (if (case stageStartDate aopts of None \<Rightarrow> 0 | Some x \<Rightarrow> daysAgo now x) > 30
              then [(''risk-stuck-stage'',
                     if (case stageStartDate aopts of None \<Rightarrow> 0 | Some x \<Rightarrow> daysAgo now x) > 60
                     then High else Medium)] else [])
           @ [(''risk-single-thread'', Medium)]"
    unfolding analyzeAccount_def Let_def d by (simp only: AccountAnalysis.simps r)
  have p: "length (md_participants ?md) = 0"
    by (simp add: empty_bundle_fields)
  have sa: "(''risk-stale-comm'', High) \<in> set (map (\<lambda>r. (rk_id r, rk_severity r)) (risks ?a))"
    unfolding rs by simp
  have sb: "(''risk-single-thread'', Medium)
              \<in> set (map (\<lambda>r. (rk_id r, rk_severity r)) (risks ?a))"
    unfolding rs by simp
  show ?thesis
    unfolding mergeAllData_empty using ds mo p sa sb by simp
qed

theorem empty_sources_analysis_witness:
  "daysSinceLastContact (analyzeAccount 0 (mergedOf (mergeAllData (\<lambda>k. []) noFireflies noSlack
                    noCalendar exampleOptions)) emptyAnalysisOptions) = 999
   \<and> momentum (analyzeAccount 0 (mergedOf (mergeAllData (\<lambda>k. []) noFireflies noSlack noCalendar
                    exampleOptions)) emptyAnalysisOptions) = AtRisk
   \<and> momentumScore (analyzeAccount 0 (mergedOf (mergeAllData (\<lambda>k. []) noFireflies noSlack noCalendar
                    exampleOptions)) emptyAnalysisOptions) = 20"
proof -
  have s: "momentumScore (analyzeAccount 0 (mergedOf (mergeAllData (\<lambda>k. []) noFireflies noSlack
              noCalendar exampleOptions)) emptyAnalysisOptions) = 20"
    by code_simp
  from empty_sources_analysis [where rnd = "\<lambda>k. []" and options = exampleOptions and now = 0
      and aopts = emptyAnalysisOptions] s
  show ?thesis
    by (simp add: noFireflies_def noSlack_def noCalendar_def mergedOf_def split: sum.splits)
qed

subsection \<open>The goal list\<close>

lemma dedupLoop_subset: "set (dedupLoop seen gs) \<subseteq> set gs"
  by (induction gs arbitrary: seen) (auto simp: Let_def)

lemma dedupLoop_fresh: "g \<in> set (dedupLoop seen gs) \<Longrightarrow> titleKey g \<notin> set seen"
proof (induction gs arbitrary: seen)
  case Nil
  then show ?case by simp
next
  case (Cons goal rest)
  show ?case
  proof (cases "titleKey goal \<in> set seen")
    case True
    with Cons.prems have "g \<in> set (dedupLoop seen rest)" by (simp add: Let_def)
    then show ?thesis by (rule Cons.IH)
  next
    case False
    with Cons.prems have "g = goal \<or> g \<in> set (dedupLoop (titleKey goal # seen) rest)"
      by (simp add: Let_def)
    then show ?thesis
    proof
      assume "g = goal"
      with False show ?thesis by simp
    next
      assume "g \<in> set (dedupLoop (titleKey goal # seen) rest)"
      then have "titleKey g \<notin> set (titleKey goal # seen)" by (rule Cons.IH)
      then show ?thesis by simp
    qed
  qed
qed

lemma dedupLoop_distinct: "distinct (map titleKey (dedupLoop seen gs))"
  by (induction gs arbitrary: seen)
     (auto simp: Let_def dest: dedupLoop_fresh)

lemma dedupLoop_first:
  "g \<in> set (dedupLoop seen gs) \<Longrightarrow> find (\<lambda>h. titleKey h = titleKey g) gs = Some g"
proof (induction gs arbitrary: seen)
  case Nil
  then show ?case by simp
next
  case (Cons goal rest)
  show ?case
  proof (cases "titleKey goal \<in> set seen")
    case True
    with Cons.prems have mem: "g \<in> set (dedupLoop seen rest)"
      by (simp add: Let_def)
    from dedupLoop_fresh [OF mem] True have "titleKey goal \<noteq> titleKey g"
      by (auto simp:)
    with Cons.IH [OF mem] show ?thesis by simp
  next
    case False
    with Cons.prems have "g = goal \<or> g \<in> set (dedupLoop (titleKey goal # seen) rest)"
      by (simp add: Let_def)
    then show ?thesis
    proof
      assume "g = goal"
      then show ?thesis by simp
    next
      assume mem: "g \<in> set (dedupLoop (titleKey goal # seen) rest)"
      from dedupLoop_fresh [OF mem] have "titleKey goal \<noteq> titleKey g" by auto
      with Cons.IH [OF mem] show ?thesis by simp
    qed
  qed
qed

lemma distinct_map_sort_key:
  "distinct (map f (sort_key k xs)) = distinct (map f xs)"
  by (simp add: distinct_map)

text \<open>
  Claim C5. For every goal-generation context, \<open>generateGoals\<close> returns at most five
  goals, in ascending order of priority, no two of which share the lowercase
  30-character title prefix; and every returned goal is the first goal with its title
  prefix in the sequence of generated goals (stage, risk, action-item, stakeholder goals
  in this order), so the first occurrence is the one kept.
\<close>

theorem generateGoals_invariants:
  "length (generateGoals ctx) \<le> 5
   \<and> sorted (map g_priority (generateGoals ctx))
   \<and> distinct (map titleKey (generateGoals ctx))
   \<and> (\<forall>g \<in> set (generateGoals ctx).
         find (\<lambda>h. titleKey h = titleKey g) (allGoals ctx) = Some g)"
proof -
  let ?d = "deduplicateGoals (allGoals ctx)"
  let ?s = "sort_key g_priority ?d"
  have g: "generateGoals ctx = take 5 ?s"
    by (simp add: generateGoals_def Let_def)
  have len: "length (take 5 ?s) \<le> 5" by simp
  have srt: "sorted (map g_priority (take 5 ?s))"
    unfolding take_map [symmetric] using sorted_sort_key [of g_priority ?d] by simp
  have "distinct (map titleKey ?s)"
    unfolding distinct_map_sort_key deduplicateGoals_def by (rule dedupLoop_distinct)
  then have dst: "distinct (map titleKey (take 5 ?s))"
    unfolding take_map [symmetric] by (rule distinct_take)
  have first: "find (\<lambda>h. titleKey h = titleKey x) (allGoals ctx) = Some x"
    if "x \<in> set (take 5 ?s)" for x
  proof -
    from that have "x \<in> set ?s" by (rule in_set_takeD)
    then have "x \<in> set (dedupLoop [] (allGoals ctx))"
      by (simp add: deduplicateGoals_def)
    then show ?thesis by (rule dedupLoop_first)
  qed
  show ?thesis unfolding g using len srt dst first by blast
qed

text \<open>
  With the same medium risk twice in the analysis, two generated goals share the title
  \<open>Discuss: Budget freeze announced\<close>; the returned one is the first, \<open>goal-2\<close>.
\<close>

theorem generateGoals_invariants_witness:
  "budgetGoal \<in> set (generateGoals duplicateRiskContext)
   \<and> length (filter (\<lambda>h. titleKey h = titleKey budgetGoal) (allGoals duplicateRiskContext)) = 2
   \<and> find (\<lambda>h. titleKey h = titleKey budgetGoal) (allGoals duplicateRiskContext) = Some budgetGoal
   \<and> length (generateGoals duplicateRiskContext) \<le> 5"
proof -
  have mem: "budgetGoal \<in> set (generateGoals duplicateRiskContext)" by code_simp
  have two: "length (filter (\<lambda>h. titleKey h = titleKey budgetGoal)
               (allGoals duplicateRiskContext)) = 2" by code_simp
  from generateGoals_invariants [of duplicateRiskContext] mem two show ?thesis by blast
qed

subsection \<open>The action follow-up points\<close>

lemma case_filter_find:
  "(case filter P xs of [] \<Rightarrow> a | x # _ \<Rightarrow> f x) = (case find P xs of None \<Rightarrow> a | Some x \<Rightarrow> f x)"
  by (induction xs) auto

lemma filter_eq_Nil_find: "(filter P xs = []) = (find P xs = None)"
  by (induction xs) auto

text \<open>
  Claim C7, as stated, fails: the claim has the overdue item of ours followed up only
  when the customer has no overdue item. With one overdue item on each side, both
  priority-1 points are emitted.
\<close>

theorem action_follow_up_both_overdue:
  "map tp_point (generateActionFollowUpPoints bothOverdueContext)
     = [''Follow up on: Send security questionnaire'',
        ''Acknowledge our overdue item: Share pricing proposal'']"
  by code_simp

lemma actionFollowUp_fields:
  "map (\<lambda>p. (tp_category p, tp_point p, tp_priority p)) (generateActionFollowUpPoints ctx)
     = (case find (\<lambda>i. ai_owner i = Theirs \<and> ai_status i = Overdue)
               (md_actionItems (ctx_mergedData ctx)) of
          None \<Rightarrow> []
        | Some item \<Rightarrow> [(ActionFollowUp, ''Follow up on: '' @ ai_description item, 1)])
       @ (case find (\<lambda>i. ai_owner i = Ours \<and> ai_status i = Overdue)
                 (md_actionItems (ctx_mergedData ctx)) of
            None \<Rightarrow> []
          | Some item \<Rightarrow>
              [(ActionFollowUp, ''Acknowledge our overdue item: '' @ ai_description item, 1)])
       @ (if find (\<lambda>i. ai_owner i = Theirs \<and> ai_status i = Pending)
                (md_actionItems (ctx_mergedData ctx)) \<noteq> None
             \<and> find (\<lambda>i. ai_owner i = Theirs \<and> ai_status i = Overdue)
                  (md_actionItems (ctx_mergedData ctx)) = None
          then [(ActionFollowUp,
                 ''Check status on ''
                 @ showNat (length (filter (\<lambda>i. ai_owner i = Theirs \<and> ai_status i = Pending)
                                      (md_actionItems (ctx_mergedData ctx))))
                 @ '' pending item(s)'', 3)]
          else [])"
proof -
  let ?items = "md_actionItems (ctx_mergedData ctx)"
  let ?open = "filter (\<lambda>i. ai_status i = Pending \<or> ai_status i = Overdue) ?items"
  have f1: "filter (\<lambda>i. ai_owner i = Theirs \<and> ai_status i = Overdue) ?open
            = filter (\<lambda>i. ai_owner i = Theirs \<and> ai_status i = Overdue) ?items"
    by (simp add: conj_commute conj_left_commute cong: conj_cong)
  have f2: "filter (\<lambda>i. ai_owner i = Ours \<and> ai_status i = Overdue) ?open
            = filter (\<lambda>i. ai_owner i = Ours \<and> ai_status i = Overdue) ?items"
    by (simp add: conj_commute conj_left_commute cong: conj_cong)
  have f3: "filter (\<lambda>i. ai_owner i = Theirs \<and> ai_status i = Pending) ?open
            = filter (\<lambda>i. ai_owner i = Theirs \<and> ai_status i = Pending) ?items"
    by (simp add: conj_commute conj_left_commute cong: conj_cong)
  show ?thesis
    unfolding generateActionFollowUpPoints_def Let_def f1 f2 f3
    by (simp add: filter_eq_Nil_find [symmetric] case_filter_find [symmetric]
        split: list.splits)
qed

text \<open>
  Claim C7, amended. For every talking-point context the action-follow-up points are, in
  this order: a priority-1 point for the first overdue item of the customer, if there is
  one; a priority-1 point for the first overdue item of ours, if there is one, whether or
  not the customer has an overdue item; and a priority-3 point that only counts the
  pending items of the customer, if there is a pending item of the customer and no
  overdue item of the customer. The three rules are independent \<open>if\<close> statements.
\<close>

theorem generateActionFollowUpPoints_rules:
  "map (\<lambda>p. (tp_category p, tp_point p, tp_priority p)) (generateActionFollowUpPoints ctx)
     = (case find (\<lambda>i. ai_owner i = Theirs \<and> ai_status i = Overdue)
               (md_actionItems (ctx_mergedData ctx)) of
          None \<Rightarrow> []
        | Some item \<Rightarrow> [(ActionFollowUp, ''Follow up on: '' @ ai_description item, 1)])
       @ (case find (\<lambda>i. ai_owner i = Ours \<and> ai_status i = Overdue)
                 (md_actionItems (ctx_mergedData ctx)) of
            None \<Rightarrow> []
          | Some item \<Rightarrow>
              [(ActionFollowUp, ''Acknowledge our overdue item: '' @ ai_description item, 1)])
       @ (if find (\<lambda>i. ai_owner i = Theirs \<and> ai_status i = Pending)
                (md_actionItems (ctx_mergedData ctx)) \<noteq> None
             \<and> find (\<lambda>i. ai_owner i = Theirs \<and> ai_status i = Overdue)
                  (md_actionItems (ctx_mergedData ctx)) = None
          then [(ActionFollowUp,
                 ''Check status on ''
                 @ showNat (length (filter (\<lambda>i. ai_owner i = Theirs \<and> ai_status i = Pending)
                                      (md_actionItems (ctx_mergedData ctx))))
                 @ '' pending item(s)'', 3)]
          else [])"
  by (rule actionFollowUp_fields)

theorem generateActionFollowUpPoints_rules_witness:
  "map (\<lambda>p. (tp_category p, tp_point p, tp_priority p))
     (generateActionFollowUpPoints bothOverdueContext)
   = [(ActionFollowUp, ''Follow up on: Send security questionnaire'', 1),
      (ActionFollowUp, ''Acknowledge our overdue item: Share pricing proposal'', 1)]"
proof -
  have a: "find (\<lambda>i. ai_owner i = Theirs \<and> ai_status i = Overdue)
             (md_actionItems (ctx_mergedData bothOverdueContext)) = Some questionnaireItem"
    by code_simp
  have b: "find (\<lambda>i. ai_owner i = Ours \<and> ai_status i = Overdue)
             (md_actionItems (ctx_mergedData bothOverdueContext)) = Some pricingItem"
    by code_simp
  have c: "ai_description questionnaireItem = ''Send security questionnaire''"
    by (simp add: questionnaireItem_def)
  have d: "ai_description pricingItem = ''Share pricing proposal''"
    by (simp add: pricingItem_def)
  show ?thesis
    unfolding generateActionFollowUpPoints_rules [of bothOverdueContext] a b by (simp add: c d)
qed

subsection \<open>The opener that references the last interaction\<close>

lemma numberPoints_fields:
  "map (\<lambda>p. (tp_category p, tp_point p, tp_priority p)) (numberPoints ps)
     = map (\<lambda>p. (tp_category p, tp_point p, tp_priority p)) ps"
proof -
  have "map (\<lambda>p. (tp_category p, tp_point p, tp_priority p)) (numberPoints ps)
          = map (\<lambda>p. (tp_category p, tp_point p, tp_priority p)) (map snd (enumerate 0 ps))"
    unfolding numberPoints_def map_map by (rule map_cong) (auto simp: case_prod_beta)
  then show ?thesis by (simp only: map_snd_enumerate)
qed

lemma generateTalkingPoints_fields:
  "set (map (\<lambda>p. (tp_category p, tp_point p, tp_priority p)) (generateTalkingPoints ctx))
     = set (map (\<lambda>p. (tp_category p, tp_point p, tp_priority p)) (allPoints ctx))"
proof -
  have "set (map (\<lambda>p. (tp_category p, tp_point p, tp_priority p)) (generateTalkingPoints ctx))
          = set (map (\<lambda>p. (tp_category p, tp_point p, tp_priority p)) (numberPoints (allPoints ctx)))"
    by (simp add: generateTalkingPoints_def)
  then show ?thesis by (simp only: numberPoints_fields)
qed

lemma category_goalSupportPoints:
  "p \<in> set (goalSupportPoints g) \<Longrightarrow> tp_category p = GoalSupport"
  by (auto simp: goalSupportPoints_def split: if_splits)

lemma category_riskMitigationPoints:
  "p \<in> set (riskMitigationPoints r) \<Longrightarrow> tp_category p = RiskMitigation"
  by (auto simp: riskMitigationPoints_def split: if_splits)

lemma category_stakeholderPoints:
  "p \<in> set (stakeholderPoints r) \<Longrightarrow> tp_category p = StakeholderSpecific"
  by (auto simp: stakeholderPoints_def split: if_splits option.splits)

lemma category_generateActionFollowUpPoints:
  assumes "p \<in> set (generateActionFollowUpPoints ctx)"
  shows "tp_category p = ActionFollowUp"
proof -
  from assms have "(tp_category p, tp_point p, tp_priority p)
      \<in> set (map (\<lambda>p. (tp_category p, tp_point p, tp_priority p)) (generateActionFollowUpPoints ctx))"
    by (simp add: image_iff) blast
  then show ?thesis
    unfolding actionFollowUp_fields by (auto split: option.splits if_splits)
qed

lemma category_generateValuePoints:
  "p \<in> set (generateValuePoints ctx) \<Longrightarrow> tp_category p = ValueProposition"
  by (auto simp: generateValuePoints_def Let_def split: if_splits)

lemma category_generateNextStepsPoints:
  "p \<in> set (generateNextStepsPoints ctx) \<Longrightarrow> tp_category p = NextSteps"
  by (auto simp: generateNextStepsPoints_def Let_def split: if_splits)

text \<open>The openers among all points are the points of \<open>generateOpeners\<close>.\<close>

lemma openers_of_allPoints:
  "filter (\<lambda>p. tp_category p = Opener) (allPoints ctx)
     = filter (\<lambda>p. tp_category p = Opener) (generateOpeners ctx)"
proof -
  have n: "filter (\<lambda>p. tp_category p = Opener) xs = []"
    if "\<And>p. p \<in> set xs \<Longrightarrow> tp_category p \<noteq> Opener" for xs :: "TalkingPoint list"
    using that by (simp add: filter_empty_conv)
  have 1: "filter (\<lambda>p. tp_category p = Opener) (generateGoalSupportPoints ctx) = []"
    by (rule n) (auto simp: generateGoalSupportPoints_def dest: category_goalSupportPoints)
  have 2: "filter (\<lambda>p. tp_category p = Opener) (generateRiskMitigationPoints ctx) = []"
    by (rule n) (auto simp: generateRiskMitigationPoints_def dest: category_riskMitigationPoints)
  have 3: "filter (\<lambda>p. tp_category p = Opener) (generateStakeholderPoints ctx) = []"
    by (rule n) (auto simp: generateStakeholderPoints_def dest: category_stakeholderPoints)
  have 4: "filter (\<lambda>p. tp_category p = Opener) (generateActionFollowUpPoints ctx) = []"
    by (rule n) (auto dest: category_generateActionFollowUpPoints)
  have 5: "filter (\<lambda>p. tp_category p = Opener) (generateValuePoints ctx) = []"
    by (rule n) (auto dest: category_generateValuePoints)
  have 6: "filter (\<lambda>p. tp_category p = Opener) (generateNextStepsPoints ctx) = []"
    by (rule n) (auto dest: category_generateNextStepsPoints)
  show ?thesis
    unfolding allPoints_def filter_append 1 2 3 4 5 6 by simp
qed

lemma openers_fields:
  "map (\<lambda>p. (tp_point p, tp_priority p)) (generateOpeners ctx)
     = (if daysSinceLastContact (ctx_analysis ctx) < 14 \<and> md_timeline (ctx_mergedData ctx) \<noteq> []
        then [(''Reference last interaction: '' @ te_title (last (md_timeline (ctx_mergedData ctx))), 1)]
        else [])
       @ (if momentum (ctx_analysis ctx) = Accelerating
          then [(''Acknowledge positive momentum'', 2)]
          else if momentum (ctx_analysis ctx) = Stalling \<or> momentum (ctx_analysis ctx) = AtRisk
          then [(''Re-establish engagement'', 1)]
          else [])
       @ (if str_includes (case pa_dealStage (ctx_account ctx) of Some x \<Rightarrow> toLowerCase x | None \<Rightarrow> []) ''poc''
             \<or> str_includes (case pa_dealStage (ctx_account ctx) of Some x \<Rightarrow> toLowerCase x | None \<Rightarrow> []) ''pilot''
          then [(''POC progress check'', 2)]
          else [])"
  unfolding generateOpeners_def Let_def by simp

lemma category_generateOpeners:
  "p \<in> set (generateOpeners ctx) \<Longrightarrow> tp_category p = Opener"
  unfolding generateOpeners_def Let_def by (auto split: if_splits)


text \<open>
  Claim C8, as stated, fails: with a call in the timeline and exactly 14 days since the
  last contact, no opener is emitted; the only talking point is the generic next step.
\<close>

theorem no_reference_opener_at_14_days:
  "daysSinceLastContact (ctx_analysis (contactContext 14)) = 14
   \<and> md_timeline (ctx_mergedData (contactContext 14)) = [kickoffCall]
   \<and> map tp_point (generateTalkingPoints (contactContext 14))
       = [''Propose specific next step with timeline'']"
  by code_simp

text \<open>
  Claim C8, amended. For every talking-point context with a non-empty timeline,
  \<open>generateTalkingPoints\<close> emits the priority-1 opener that references the last event
  of the timeline exactly when \<open>daysSinceLastContact\<close> is below 14: the guard of
  \<open>generateOpeners\<close> is \<open>daysSinceLastContact < 14\<close>, so at exactly 14 days the
  opener is not emitted.
\<close>

theorem reference_opener_iff_under_14_days:
  assumes "md_timeline (ctx_mergedData ctx) \<noteq> []"
  shows "((Opener,
           ''Reference last interaction: '' @ te_title (last (md_timeline (ctx_mergedData ctx))),
           1)
          \<in> set (map (\<lambda>p. (tp_category p, tp_point p, tp_priority p)) (generateTalkingPoints ctx)))
         = (daysSinceLastContact (ctx_analysis ctx) < 14)"
proof -
  define t where
    "t = ''Reference last interaction: '' @ te_title (last (md_timeline (ctx_mergedData ctx)))"
  have "((Opener, t, 1)
          \<in> set (map (\<lambda>p. (tp_category p, tp_point p, tp_priority p)) (generateTalkingPoints ctx)))
        = (\<exists>q \<in> set (allPoints ctx). tp_category q = Opener \<and> tp_point q = t \<and> tp_priority q = 1)"
    unfolding generateTalkingPoints_fields by (force simp: image_iff)
  also have "\<dots> = (\<exists>q \<in> set (filter (\<lambda>p. tp_category p = Opener) (allPoints ctx)).
                      tp_point q = t \<and> tp_priority q = 1)"
    by auto
  also have "\<dots> = (\<exists>q \<in> set (generateOpeners ctx). tp_point q = t \<and> tp_priority q = 1)"
    unfolding openers_of_allPoints by (auto dest: category_generateOpeners)
  also have "\<dots> = ((t, 1) \<in> set (map (\<lambda>p. (tp_point p, tp_priority p)) (generateOpeners ctx)))"
    by (force simp: image_iff)
  also have "\<dots> = (daysSinceLastContact (ctx_analysis ctx) < 14)"
    unfolding openers_fields t_def using assms by simp
  finally show ?thesis unfolding t_def .
qed

theorem reference_opener_iff_under_14_days_witness:
  "md_timeline (ctx_mergedData (contactContext 13)) \<noteq> []
   \<and> (Opener, ''Reference last interaction: Kickoff call'', 1)
       \<in> set (map (\<lambda>p. (tp_category p, tp_point p, tp_priority p))
                (generateTalkingPoints (contactContext 13)))"
proof -
  have t: "md_timeline (ctx_mergedData (contactContext 13)) \<noteq> []" by code_simp
  have l: "te_title (last (md_timeline (ctx_mergedData (contactContext 13)))) = ''Kickoff call''"
    by code_simp
  have d: "daysSinceLastContact (ctx_analysis (contactContext 13)) < 14" by code_simp
  from reference_opener_iff_under_14_days [OF t] d l t show ?thesis by simp
qed

subsection \<open>The competitor mentions of one event\<close>

text \<open>
  Claim C3, as stated, fails: the \<open>break\<close> leaves only the loop over the aliases of one
  competitor, so an event whose text names two known competitors yields two mentions,
  one for each.
\<close>

theorem two_competitors_in_one_event:
  "map cm_competitor (extractMentionsFromEvent comparisonCall 1) = [''Salesforce'', ''Microsoft'']"
  by code_simp


lemma firstAlias_None: "(firstAlias t as = None) = (\<not> aliasMatch t as)"
  by (auto simp: firstAlias_def aliasMatch_def find_None_iff list_ex_iff)

lemma firstAlias_Some: "aliasMatch t as \<Longrightarrow> \<exists>a. firstAlias t as = Some a"
  using firstAlias_None [of t as] by (cases "firstAlias t as") auto

lemma knownMatches_names:
  "map fst (knownMatches t) = map fst (filter (\<lambda>(c, as). aliasMatch t as) KNOWN_COMPETITORS)"
proof -
  have g: "map fst (concat (map (\<lambda>(competitor, aliases).
                    case firstAlias t aliases of
                      None \<Rightarrow> []
                    | Some alias \<Rightarrow> [(competitor, alias)]) xs))
           = map fst (filter (\<lambda>(c, as). aliasMatch t as) xs)" for xs
    by (induction xs) (auto simp: firstAlias_None split: option.splits dest: firstAlias_Some)
  show ?thesis unfolding knownMatches_def by (rule g)
qed

lemma knownMatches_alias:
  "(c, a) \<in> set (knownMatches t) \<Longrightarrow>
     \<exists>as. (c, as) \<in> set KNOWN_COMPETITORS \<and> firstAlias t as = Some a"
  unfolding knownMatches_def by (auto split: option.splits)

lemma distinct_KNOWN_COMPETITORS: "distinct (map fst KNOWN_COMPETITORS)"
  by code_simp


lemma knownMatches_distinct: "distinct (map fst (knownMatches t))"
  unfolding knownMatches_names using distinct_KNOWN_COMPETITORS by (rule distinct_map_filter)

lemma map_enumerate_snd: "map (\<lambda>x. g (snd x)) (enumerate k xs) = map g xs"
  by (induction xs arbitrary: k) simp_all

lemma extractMentionsFromEvent_fields:
  "map (\<lambda>m. (cm_competitor m, cm_context m, cm_sentiment m)) (extractMentionsFromEvent event k)
     = (if knownMatches (searchTextOf event) = []
           \<and> aliasMatch (searchTextOf event) COMPETITIVE_SIGNALS
        then [(''Unknown Competitor'', extractGenericCompetitiveContext (searchTextOf event), Neutral)]
        else map (\<lambda>(competitor, alias).
                    (competitor, extractMentionContext (searchTextOf event) alias,
                     analyzeCompetitorSentiment (searchTextOf event) alias))
               (knownMatches (searchTextOf event)))"
proof -
  let ?t = "searchTextOf event"
  let ?f = "\<lambda>competitor alias.
              (competitor, extractMentionContext ?t alias, analyzeCompetitorSentiment ?t alias)"
  have k: "map (\<lambda>m. (cm_competitor m, cm_context m, cm_sentiment m))
             (map (\<lambda>(i, (competitor, alias)).
                   \<lparr> cm_id = ''cm-'' @ showNat (k + i),
                     cm_competitor = competitor,
                     cm_context = extractMentionContext ?t alias,
                     cm_sentiment = analyzeCompetitorSentiment ?t alias,
                     cm_source = eventSource event,
                     cm_sourceId = Some (te_id event),
                     cm_date = Some (te_date event) \<rparr>)
              (enumerate 0 (knownMatches ?t)))
           = map (\<lambda>(competitor, alias). ?f competitor alias) (knownMatches ?t)"
    unfolding map_map comp_def case_prod_beta
    using map_enumerate_snd [of "\<lambda>p. (fst p, extractMentionContext ?t (snd p),
                                        analyzeCompetitorSentiment ?t (snd p))" 0 "knownMatches ?t"]
    by simp
  show ?thesis
  proof (cases "knownMatches ?t = [] \<and> aliasMatch ?t COMPETITIVE_SIGNALS")
    case True
    then show ?thesis
      unfolding extractMentionsFromEvent_def Let_def by (simp add: aliasMatch_def)
  next
    case False
    then have e: "extractMentionsFromEvent event k
        = map (\<lambda>(i, (competitor, alias)).
                   \<lparr> cm_id = ''cm-'' @ showNat (k + i),
                     cm_competitor = competitor,
                     cm_context = extractMentionContext ?t alias,
                     cm_sentiment = analyzeCompetitorSentiment ?t alias,
                     cm_source = eventSource event,
                     cm_sourceId = Some (te_id event),
                     cm_date = Some (te_date event) \<rparr>)
              (enumerate 0 (knownMatches ?t))"
      unfolding extractMentionsFromEvent_def Let_def by (auto simp add: aliasMatch_def)
    show ?thesis unfolding e k using False by auto
  qed
qed

lemma unknown_competitor_not_known: "''Unknown Competitor'' \<notin> set (map fst KNOWN_COMPETITORS)"
  by code_simp

lemma mentions_competitors:
  "map cm_competitor (extractMentionsFromEvent event k)
     = (if filter (\<lambda>(c, as). aliasMatch (searchTextOf event) as) KNOWN_COMPETITORS = []
           \<and> aliasMatch (searchTextOf event) COMPETITIVE_SIGNALS
        then [''Unknown Competitor'']
        else map fst (filter (\<lambda>(c, as). aliasMatch (searchTextOf event) as) KNOWN_COMPETITORS))"
proof -
  let ?t = "searchTextOf event"
  have n: "(knownMatches ?t = [])
           = (filter (\<lambda>(c, as). aliasMatch ?t as) KNOWN_COMPETITORS = [])"
    using knownMatches_names [of ?t] by (metis map_is_Nil_conv)
  have "map cm_competitor (extractMentionsFromEvent event k)
          = map fst (map (\<lambda>m. (cm_competitor m, cm_context m, cm_sentiment m))
                       (extractMentionsFromEvent event k))"
    by (simp add: comp_def)
  also have "\<dots> = (if knownMatches ?t = [] \<and> aliasMatch ?t COMPETITIVE_SIGNALS
                    then [''Unknown Competitor'']
                    else map fst (knownMatches ?t))"
    unfolding extractMentionsFromEvent_fields by (simp add: comp_def case_prod_beta)
  finally show ?thesis unfolding n knownMatches_names .
qed

lemma mentions_first_alias:
  assumes m: "m \<in> set (extractMentionsFromEvent event k)"
    and c: "(cm_competitor m, as) \<in> set KNOWN_COMPETITORS"
  shows "\<exists>a. firstAlias (searchTextOf event) as = Some a
             \<and> cm_context m = extractMentionContext (searchTextOf event) a
             \<and> cm_sentiment m = analyzeCompetitorSentiment (searchTextOf event) a"
proof -
  let ?t = "searchTextOf event"
  from c have known: "cm_competitor m \<in> set (map fst KNOWN_COMPETITORS)" by force
  from m have "(cm_competitor m, cm_context m, cm_sentiment m)
      \<in> set (map (\<lambda>m. (cm_competitor m, cm_context m, cm_sentiment m))
                (extractMentionsFromEvent event k))"
    by force
  then have "(cm_competitor m, cm_context m, cm_sentiment m)
      \<in> set (map (\<lambda>(competitor, alias).
                    (competitor, extractMentionContext ?t alias,
                     analyzeCompetitorSentiment ?t alias))
                (knownMatches ?t))"
    unfolding extractMentionsFromEvent_fields
    using known unknown_competitor_not_known by (auto split: if_splits)
  then obtain a where a: "(cm_competitor m, a) \<in> set (knownMatches ?t)"
      and x: "cm_context m = extractMentionContext ?t a"
      and s: "cm_sentiment m = analyzeCompetitorSentiment ?t a"
    by auto
  from knownMatches_alias [OF a] obtain as' where
      k: "(cm_competitor m, as') \<in> set KNOWN_COMPETITORS" and f: "firstAlias ?t as' = Some a"
    by blast
  from eq_key_imp_eq_value [OF distinct_KNOWN_COMPETITORS k c] have "as' = as" .
  with f x s show ?thesis by blast
qed

text \<open>
  Claim C3, amended. For every timeline event the extractor counts at most one mention
  per known competitor: the mentions name pairwise different competitors, namely every
  dictionary entry of which some alias occurs in the lowercased text, in dictionary
  order (or the single synthetic \<open>Unknown Competitor\<close> when no entry matches and a
  competitive-signal phrase occurs); and the context and sentiment of the mention of a
  known competitor are taken at the first alias of that competitor, in the order of its
  alias list, that occurs in the text. An event that contains aliases of two different
  known competitors thus yields two mentions.
\<close>

theorem one_mention_per_known_competitor:
  "distinct (map cm_competitor (extractMentionsFromEvent event k))
   \<and> map cm_competitor (extractMentionsFromEvent event k)
       = (if filter (\<lambda>(c, as). aliasMatch (searchTextOf event) as) KNOWN_COMPETITORS = []
             \<and> aliasMatch (searchTextOf event) COMPETITIVE_SIGNALS
          then [''Unknown Competitor'']
          else map fst (filter (\<lambda>(c, as). aliasMatch (searchTextOf event) as) KNOWN_COMPETITORS))
   \<and> (\<forall>m \<in> set (extractMentionsFromEvent event k). \<forall>as.
         (cm_competitor m, as) \<in> set KNOWN_COMPETITORS \<longrightarrow>
         (\<exists>a. firstAlias (searchTextOf event) as = Some a
              \<and> cm_context m = extractMentionContext (searchTextOf event) a
              \<and> cm_sentiment m = analyzeCompetitorSentiment (searchTextOf event) a))"
proof -
  have d: "distinct (map cm_competitor (extractMentionsFromEvent event k))"
    unfolding mentions_competitors
    using distinct_KNOWN_COMPETITORS by (simp add: distinct_map_filter)
  show ?thesis
    using d mentions_competitors [of event k] mentions_first_alias [of _ event k] by blast
qed

theorem one_mention_per_known_competitor_witness:
  "hd (extractMentionsFromEvent comparisonCall 1) \<in> set (extractMentionsFromEvent comparisonCall 1)
   \<and> (cm_competitor (hd (extractMentionsFromEvent comparisonCall 1)),
       [''salesforce'', ''sfdc'', ''sales cloud'', ''service cloud'']) \<in> set KNOWN_COMPETITORS
   \<and> cm_context (hd (extractMentionsFromEvent comparisonCall 1))
       = extractMentionContext (searchTextOf comparisonCall) ''salesforce''
   \<and> length (extractMentionsFromEvent comparisonCall 1) = 2"
proof -
  let ?m = "hd (extractMentionsFromEvent comparisonCall 1)"
  let ?as = "[''salesforce'', ''sfdc'', ''sales cloud'', ''service cloud'']"
  have m: "?m \<in> set (extractMentionsFromEvent comparisonCall 1)" by code_simp
  have c: "(cm_competitor ?m, ?as) \<in> set KNOWN_COMPETITORS" by code_simp
  have f: "firstAlias (searchTextOf comparisonCall) ?as = Some ''salesforce''" by code_simp
  have l: "length (extractMentionsFromEvent comparisonCall 1) = 2" by code_simp
  from one_mention_per_known_competitor [of comparisonCall 1] m c
  have "\<exists>a. firstAlias (searchTextOf comparisonCall) ?as = Some a
            \<and> cm_context ?m = extractMentionContext (searchTextOf comparisonCall) a
            \<and> cm_sentiment ?m = analyzeCompetitorSentiment (searchTextOf comparisonCall) a"
    by blast
  with f have "cm_context ?m = extractMentionContext (searchTextOf comparisonCall) ''salesforce''"
    by simp
  with m c l show ?thesis by blast
qed

subsection \<open>The merged timeline and the participant registry\<close>

text \<open>
  Claim C4, as stated, fails on the registry keys: the merger keys the registry by the
  address as the source record writes it. Two transcripts that name the same address as
  \<open>Bob@Acme.com\<close> and as \<open>bob@acme.com\<close> give two registry entries, and the first
  key is not lowercase.
\<close>

theorem registry_keeps_letter_case:
  "map fst (md_participants mixedCaseBundle) = [''Bob@Acme.com'', ''bob@acme.com'']
   \<and> toLowerCase ''Bob@Acme.com'' = ''bob@acme.com''"
  by code_simp

text \<open>\<open>map_set\<close> is \<open>Map.set\<close>: afterwards the key maps to the new value.\<close>

lemma map_set_lookup: "map_of (map_set m k v) = (map_of m)(k \<mapsto> v)"
  by (induction m) (auto simp: fun_eq_iff)

lemma map_set_keys: "fst ` set (map_set m k v) = insert k (fst ` set m)"
proof (induction m)
  case Nil
  then show ?case by simp
next
  case (Cons x m)
  obtain a b where x: "x = (a, b)" by (cases x)
  show ?case
  proof (cases "a = k")
    case True
    with x show ?thesis by simp
  next
    case False
    with x Cons.IH show ?thesis by auto
  qed
qed

lemma map_set_distinct: "distinct (map fst m) \<Longrightarrow> distinct (map fst (map_set m k v))"
proof (induction m)
  case Nil
  then show ?case by simp
next
  case (Cons x m)
  obtain a b where x: "x = (a, b)" by (cases x)
  show ?case
  proof (cases "a = k")
    case True
    with Cons.prems x show ?thesis by simp
  next
    case False
    from Cons.prems x have "a \<notin> fst ` set m" and "distinct (map fst m)" by auto
    with False Cons.IH x show ?thesis by (simp add: map_set_keys)
  qed
qed

lemma map_set_entries:
  "e \<in> set (map_set m k v) \<Longrightarrow> e = (k, v) \<or> e \<in> set m"
  by (induction m) (auto split: if_splits)

lemma map_get_mem: "map_get m k = Some v \<Longrightarrow> (k, v) \<in> set m"
  by (simp add: map_get_def map_of_SomeD)

lemma wellKeyed_map_set:
  assumes "wellKeyed m" "pp_email v = Some k"
  shows "wellKeyed (map_set m k v)"
proof -
  from assms(1) have d: "distinct (map fst m)"
    and e: "\<And>k' p. (k', p) \<in> set m \<Longrightarrow> pp_email p = Some k'"
    by (auto simp: wellKeyed_def list_all_iff)
  have "pp_email p = Some k'" if "(k', p) \<in> set (map_set m k v)" for k' p
    using map_set_entries [OF that] assms(2) e by auto
  with map_set_distinct [OF d] show ?thesis
    by (auto simp: wellKeyed_def list_all_iff)
qed

lemma wellKeyed_get: "wellKeyed m \<Longrightarrow> map_get m k = Some v \<Longrightarrow> pp_email v = Some k"
  by (auto simp: wellKeyed_def list_all_iff dest: map_get_mem)

lemma addTranscriptParticipant_keys:
  "fst ` set (addTranscriptParticipant t ps e)
     = (if isInternalEmail e then fst ` set ps else insert e (fst ` set ps))"
  by (simp add: addTranscriptParticipant_def Let_def map_set_keys)

lemma addTranscriptParticipant_wellKeyed:
  assumes "wellKeyed ps"
  shows "wellKeyed (addTranscriptParticipant t ps e)"
proof (cases "isInternalEmail e")
  case True
  with assms show ?thesis by (simp add: addTranscriptParticipant_def)
next
  case False
  have "pp_email (case map_get ps e of Some p \<Rightarrow> p | None \<Rightarrow> newParticipant e []) = Some e"
    using wellKeyed_get [OF assms] by (auto simp: newParticipant_def split: option.splits)
  with False assms show ?thesis
    by (simp add: addTranscriptParticipant_def Let_def wellKeyed_map_set)
qed

lemma foldl_addTranscriptParticipant:
  "wellKeyed ps \<Longrightarrow>
     wellKeyed (foldl (addTranscriptParticipant t) ps es)
     \<and> fst ` set (foldl (addTranscriptParticipant t) ps es)
         = fst ` set ps \<union> {e \<in> set es. \<not> isInternalEmail e}"
proof (induction es arbitrary: ps)
  case Nil
  then show ?case by simp
next
  case (Cons e es)
  from Cons.IH [OF addTranscriptParticipant_wellKeyed [OF Cons.prems, of t e]]
  show ?case by (auto simp: addTranscriptParticipant_keys split: if_splits)
qed

lemma addCalendarAttendee_keys:
  "fst ` set (addCalendarAttendee ps a)
     = (if isInternalEmail (ca_email a) then fst ` set ps else insert (ca_email a) (fst ` set ps))"
  by (simp add: addCalendarAttendee_def Let_def map_set_keys)

lemma addCalendarAttendee_wellKeyed:
  assumes "wellKeyed ps"
  shows "wellKeyed (addCalendarAttendee ps a)"
proof (cases "isInternalEmail (ca_email a)")
  case True
  with assms show ?thesis by (simp add: addCalendarAttendee_def)
next
  case False
  define existing where
    "existing = (case map_get ps (ca_email a) of
                   Some p \<Rightarrow> p
                 | None \<Rightarrow> newParticipant (ca_email a)
                             (case ca_displayName a of None \<Rightarrow> [] | Some n \<Rightarrow> n))"
  have "pp_email existing = Some (ca_email a)"
    unfolding existing_def
    using wellKeyed_get [OF assms] by (auto simp: newParticipant_def split: option.splits)
  then have "wellKeyed (map_set ps (ca_email a) existing)"
    and "wellKeyed (map_set ps (ca_email a) (existing\<lparr> pp_name := ca_displayName a \<rparr>))"
    using assms by (simp_all add: wellKeyed_map_set)
  with False show ?thesis
    unfolding addCalendarAttendee_def Let_def existing_def [symmetric] by simp
qed

lemma foldl_addCalendarAttendee:
  "wellKeyed ps \<Longrightarrow>
     wellKeyed (foldl addCalendarAttendee ps as)
     \<and> fst ` set (foldl addCalendarAttendee ps as)
         = fst ` set ps \<union> {e \<in> set (map ca_email as). \<not> isInternalEmail e}"
proof (induction as arbitrary: ps)
  case Nil
  then show ?case by simp
next
  case (Cons a as)
  from Cons.IH [OF addCalendarAttendee_wellKeyed [OF Cons.prems, of a]]
  show ?case by (auto simp: addCalendarAttendee_keys split: if_splits)
qed


lemma mergeTranscript_participants:
  "md_participants (fst (mergeTranscript rnd st t))
     = foldl (addTranscriptParticipant t) (md_participants (fst st)) (ft_participants t)"
  by (simp add: mergeTranscript_def Let_def)

lemma mergeFirefliesData_registry:
  "wellKeyed (md_participants (fst st)) \<Longrightarrow>
     wellKeyed (md_participants (fst (foldl (mergeTranscript rnd) st ts)))
     \<and> fst ` set (md_participants (fst (foldl (mergeTranscript rnd) st ts)))
         = fst ` set (md_participants (fst st))
           \<union> {e \<in> set (concat (map ft_participants ts)). \<not> isInternalEmail e}"
proof (induction ts arbitrary: st)
  case Nil
  then show ?case by simp
next
  case (Cons t ts)
  from foldl_addTranscriptParticipant [OF Cons.prems, of t "ft_participants t"]
  have w: "wellKeyed (md_participants (fst (mergeTranscript rnd st t)))"
    and k: "fst ` set (md_participants (fst (mergeTranscript rnd st t)))
              = fst ` set (md_participants (fst st))
                \<union> {e \<in> set (ft_participants t). \<not> isInternalEmail e}"
    by (simp_all add: mergeTranscript_participants)
  from Cons.IH [OF w] k show ?case by auto
qed

lemma mergeSlackData_participants:
  "mergeSlackData result slack options = Inr r \<Longrightarrow> md_participants r = md_participants result"
  by (auto simp: mergeSlackData_def split: sum.splits)

lemma mergeCalendarEvent_registry:
  assumes "wellKeyed (md_participants result)"
  shows "wellKeyed (md_participants (mergeCalendarEvent options result ev))
     \<and> fst ` set (md_participants (mergeCalendarEvent options result ev))
         = fst ` set (md_participants result)
           \<union> {e \<in> set (map ca_email (concat (map ce_attendees
                                                (filter (hasAccountAttendee options) [ev])))).
                \<not> isInternalEmail e}"
proof (cases "hasAccountAttendee options ev")
  case True
  with foldl_addCalendarAttendee [OF assms, of "ce_attendees ev"] show ?thesis
    by (simp add: mergeCalendarEvent_def Let_def)
next
  case False
  with assms show ?thesis by (simp add: mergeCalendarEvent_def)
qed

lemma mergeCalendarData_registry:
  "wellKeyed (md_participants result) \<Longrightarrow>
     wellKeyed (md_participants (foldl (mergeCalendarEvent options) result evs))
     \<and> fst ` set (md_participants (foldl (mergeCalendarEvent options) result evs))
         = fst ` set (md_participants result)
           \<union> {e \<in> set (map ca_email (concat (map ce_attendees
                                                (filter (hasAccountAttendee options) evs)))).
                \<not> isInternalEmail e}"
proof (induction evs arbitrary: result)
  case Nil
  then show ?case by simp
next
  case (Cons ev evs)
  from mergeCalendarEvent_registry [OF Cons.prems, of options ev]
  have w: "wellKeyed (md_participants (mergeCalendarEvent options result ev))"
    and k: "fst ` set (md_participants (mergeCalendarEvent options result ev))
         = fst ` set (md_participants result)
           \<union> {e \<in> set (map ca_email (concat (map ce_attendees
                                                (filter (hasAccountAttendee options) [ev])))).
                \<not> isInternalEmail e}"
    by blast+
  from Cons.IH [OF w] k show ?case by (cases "hasAccountAttendee options ev") auto
qed

lemma consolidateParticipant_email: "pp_email (consolidateParticipant p) = pp_email p"
  by (simp add: consolidateParticipant_def Let_def split: option.splits list.splits)

lemma deduplicateParticipants_registry:
  "map fst (md_participants (deduplicateParticipants result)) = map fst (md_participants result)"
  "wellKeyed (md_participants result) \<Longrightarrow>
     wellKeyed (md_participants (deduplicateParticipants result))"
  by (auto simp: deduplicateParticipants_def wellKeyed_def list_all_iff comp_def case_prod_beta
      consolidateParticipant_email)

lemma deduplicateParticipants_timeline:
  "md_timeline (deduplicateParticipants result) = md_timeline result"
  by (simp add: deduplicateParticipants_def)

lemma sortTimeline_fields:
  "md_participants (sortTimeline result) = md_participants result"
  "sorted (map te_date (md_timeline (sortTimeline result)))"
  by (simp_all add: sortTimeline_def)

lemma computeAccountMetrics_fields:
  "md_participants (computeAccountMetrics result) = md_participants result"
  "md_timeline (computeAccountMetrics result) = md_timeline result"
  "md_actionItems (computeAccountMetrics result) = md_actionItems result"
  by (simp_all add: computeAccountMetrics_def Let_def)

lemma wellKeyed_initial: "wellKeyed (md_participants (initialMergedData options))"
  by (simp add: initialMergedData_def wellKeyed_def)

lemma mergeAllData_registry:
  assumes "mergeAllData rnd fireflies slack calendar options = Inr md"
  shows "sorted (map te_date (md_timeline md))"
    and "wellKeyed (md_participants md)"
    and "set (map fst (md_participants md))
           = {e \<in> set (sourceAddresses fireflies calendar options). \<not> isInternalEmail e}"
proof -
  let ?r1 = "fst (mergeFirefliesData rnd (initialMergedData options, 0) fireflies)"
  from assms obtain r2 where s: "mergeSlackData ?r1 slack options = Inr r2"
    and md: "md = computeAccountMetrics (sortTimeline (deduplicateParticipants
                    (mergeCalendarData r2 calendar options)))"
    by (auto simp: mergeAllData_def Let_def split: sum.splits)
  have "wellKeyed (md_participants (fst (initialMergedData options, 0::nat)))"
    by (simp add: wellKeyed_initial)
  from mergeFirefliesData_registry [OF this, of rnd "transcripts fireflies"]
  have w1: "wellKeyed (md_participants ?r1)"
    and k1: "fst ` set (md_participants ?r1)
               = {e \<in> set (concat (map ft_participants (transcripts fireflies))).
                    \<not> isInternalEmail e}"
    by (simp_all add: mergeFirefliesData_def initialMergedData_def)
  from mergeSlackData_participants [OF s] w1 k1
  have w2: "wellKeyed (md_participants r2)"
    and k2: "fst ` set (md_participants r2)
               = {e \<in> set (concat (map ft_participants (transcripts fireflies))).
                    \<not> isInternalEmail e}"
    by simp_all
  let ?r3 = "mergeCalendarData r2 calendar options"
  from mergeCalendarData_registry [OF w2, of options "events calendar"] k2
  have w3: "wellKeyed (md_participants ?r3)"
    and k3: "fst ` set (md_participants ?r3)
               = {e \<in> set (sourceAddresses fireflies calendar options). \<not> isInternalEmail e}"
    by (auto simp: mergeCalendarData_def sourceAddresses_def)
  show "sorted (map te_date (md_timeline md))"
    unfolding md by (simp add: computeAccountMetrics_fields sortTimeline_fields)
  show "wellKeyed (md_participants md)"
    unfolding md
    by (simp add: computeAccountMetrics_fields sortTimeline_fields
        deduplicateParticipants_registry w3)
  have "map fst (md_participants md) = map fst (md_participants ?r3)"
    unfolding md
    by (simp add: computeAccountMetrics_fields sortTimeline_fields
        deduplicateParticipants_registry)
  then show "set (map fst (md_participants md))
           = {e \<in> set (sourceAddresses fireflies calendar options). \<not> isInternalEmail e}"
    using k3 by simp
qed

text \<open>
  Claim C4, amended. The statement is about the source records of the model: call
  transcripts and calendar events whose dates are valid dates. For every such input on
  which the merger returns, the returned timeline is sorted ascending by event date, and
  the keys of the participant registry are pairwise different addresses, each recorded as
  the address of its own entry: they are exactly the non-internal addresses among the
  transcript participants and the attendees of the calendar events of the account, in the
  letter case in which the source records write them. Two source records naming the same
  address in different letter case map to two registry entries. Nothing is stated about
  an input in which a transcript or a calendar event carries an Invalid Date: there the
  comparator of \<open>sortTimeline\<close> yields NaN, and the order of the returned timeline is
  neither promised nor denied.
\<close>

theorem mergeAllData_sorted_timeline_keyed_registry:
  assumes "mergeAllData rnd fireflies slack calendar options = Inr md"
  shows "sorted (map te_date (md_timeline md))
         \<and> distinct (map fst (md_participants md))
         \<and> wellKeyed (md_participants md)
         \<and> set (map fst (md_participants md))
             = {e \<in> set (sourceAddresses fireflies calendar options). \<not> isInternalEmail e}"
  using mergeAllData_registry [OF assms] by (simp add: wellKeyed_def)

theorem mergeAllData_sorted_timeline_keyed_registry_witness:
  "mergeAllData (\<lambda>k. []) mixedCaseFireflies noSlack noCalendar exampleOptions = Inr mixedCaseBundle
   \<and> sorted (map te_date (md_timeline mixedCaseBundle))
   \<and> distinct (map fst (md_participants mixedCaseBundle))
   \<and> set (map fst (md_participants mixedCaseBundle))
       = {e \<in> set (sourceAddresses mixedCaseFireflies noCalendar exampleOptions).
            \<not> isInternalEmail e}"
proof -
  have m: "mergeAllData (\<lambda>k. []) mixedCaseFireflies noSlack noCalendar exampleOptions
             = Inr mixedCaseBundle"
    by code_simp
  from mergeAllData_sorted_timeline_keyed_registry [OF m] m show ?thesis by blast
qed

subsection \<open>Action items in the assembled pipeline\<close>

lemma convertFirefliesActionItem_status:
  "ai_status (convertFirefliesActionItem sfx item t) = Pending"
  by (simp add: convertFirefliesActionItem_def Let_def)

lemma mergeTranscript_actionItems:
  "list_all (\<lambda>i. ai_status i = Pending) (md_actionItems (fst st)) \<Longrightarrow>
     list_all (\<lambda>i. ai_status i = Pending) (md_actionItems (fst (mergeTranscript rnd st t)))"
  by (auto simp: mergeTranscript_def Let_def list_all_iff convertFirefliesActionItem_status)

lemma mergeFirefliesData_actionItems:
  "list_all (\<lambda>i. ai_status i = Pending) (md_actionItems (fst st)) \<Longrightarrow>
     list_all (\<lambda>i. ai_status i = Pending)
       (md_actionItems (fst (foldl (mergeTranscript rnd) st ts)))"
  by (induction ts arbitrary: st) (simp_all add: mergeTranscript_actionItems)

lemma mergeSlackData_actionItems:
  "mergeSlackData result slack options = Inr r \<Longrightarrow> md_actionItems r = md_actionItems result"
  by (auto simp: mergeSlackData_def split: sum.splits)

lemma mergeCalendarEvent_actionItems:
  "md_actionItems (mergeCalendarEvent options result ev) = md_actionItems result"
  by (simp add: mergeCalendarEvent_def Let_def)

lemma mergeCalendarData_actionItems:
  "md_actionItems (foldl (mergeCalendarEvent options) result evs) = md_actionItems result"
  by (induction evs arbitrary: result) (simp_all add: mergeCalendarEvent_actionItems)

lemma deduplicateParticipants_actionItems:
  "md_actionItems (deduplicateParticipants result) = md_actionItems result"
  by (simp add: deduplicateParticipants_def)

lemma sortTimeline_actionItems:
  "md_actionItems (sortTimeline result) = md_actionItems result"
  by (simp add: sortTimeline_def)

lemma computeAccountMetrics_actionItems:
  "md_actionItems (computeAccountMetrics result) = md_actionItems result"
  "pa_openActionItems (md_account (computeAccountMetrics result))
     = filter (\<lambda>item. ai_status item = Pending \<or> ai_status item = Overdue) (md_actionItems result)"
  by (simp_all add: computeAccountMetrics_def Let_def)

lemma mergeAllData_all_pending:
  assumes "mergeAllData rnd fireflies slack calendar options = Inr md"
  shows "list_all (\<lambda>i. ai_status i = Pending) (md_actionItems md)"
    and "list_all (\<lambda>i. ai_status i = Pending) (pa_openActionItems (md_account md))"
proof -
  let ?r1 = "fst (mergeFirefliesData rnd (initialMergedData options, 0) fireflies)"
  from assms obtain r2 where s: "mergeSlackData ?r1 slack options = Inr r2"
    and md: "md = computeAccountMetrics (sortTimeline (deduplicateParticipants
                    (mergeCalendarData r2 calendar options)))"
    by (auto simp: mergeAllData_def Let_def split: sum.splits)
  have "list_all (\<lambda>i. ai_status i = Pending)
          (md_actionItems (fst (initialMergedData options, 0::nat)))"
    by (simp add: initialMergedData_def)
  from mergeFirefliesData_actionItems [OF this, of rnd "transcripts fireflies"]
  have "list_all (\<lambda>i. ai_status i = Pending) (md_actionItems ?r1)"
    by (simp add: mergeFirefliesData_def)
  with mergeSlackData_actionItems [OF s]
  have "list_all (\<lambda>i. ai_status i = Pending) (md_actionItems r2)" by simp
  then show a: "list_all (\<lambda>i. ai_status i = Pending) (md_actionItems md)"
    unfolding md
    by (simp add: computeAccountMetrics_actionItems sortTimeline_actionItems
        deduplicateParticipants_actionItems mergeCalendarData_def mergeCalendarData_actionItems)
  have "pa_openActionItems (md_account md)
          = filter (\<lambda>item. ai_status item = Pending \<or> ai_status item = Overdue) (md_actionItems md)"
    unfolding md by (simp add: computeAccountMetrics_actionItems)
  with a show "list_all (\<lambda>i. ai_status i = Pending) (pa_openActionItems (md_account md))"
    by (simp add: list_all_iff)
qed

lemma no_overdue_filter:
  assumes "list_all (\<lambda>i. ai_status i = Pending) xs"
  shows "filter (\<lambda>i. P i \<and> ai_status i = Overdue) xs = []"
    and "filter (\<lambda>i. ai_status i = Overdue) xs = []"
    and "find (\<lambda>i. P i \<and> ai_status i = Overdue) xs = None"
  using assms by (auto simp: list_all_iff filter_empty_conv find_None_iff)

lemma calculateMomentumScore_no_overdue:
  assumes "list_all (\<lambda>i. ai_status i = Pending) (md_actionItems data)"
  shows "calculateMomentumScore now data d
           = calculateMomentumScore now (data\<lparr> md_actionItems := [] \<rparr>) d"
  unfolding calculateMomentumScore_def Let_def
  by (simp add: no_overdue_filter [OF assms])

lemma detectRisks_no_overdue:
  assumes p: "list_all (\<lambda>i. ai_status i = Pending) (md_actionItems data)"
    and r: "r \<in> set (detectRisks now data d s)"
  shows "rk_id r \<noteq> ''risk-overdue-ours'' \<and> rk_id r \<noteq> ''risk-overdue-theirs''"
  using r unfolding detectRisks_def Let_def no_overdue_filter [OF p]
  by (auto split: if_splits)


lemma generateGoals_subset: "set (generateGoals ctx) \<subseteq> set (allGoals ctx)"
proof -
  have "set (generateGoals ctx) \<subseteq> set (sort_key g_priority (deduplicateGoals (allGoals ctx)))"
    unfolding generateGoals_def Let_def by (rule set_take_subset)
  also have "\<dots> \<subseteq> set (allGoals ctx)"
    using dedupLoop_subset [of "[]" "allGoals ctx"] by (simp add: deduplicateGoals_def)
  finally show ?thesis .
qed

lemma numberGoals_titles: "map g_title (numberGoals gs) = map g_title gs"
proof -
  have "map g_title (numberGoals gs) = map (\<lambda>x. g_title (snd x)) (enumerate 0 gs)"
    by (simp add: numberGoals_def comp_def case_prod_beta)
  then show ?thesis by (simp only: map_enumerate_snd)
qed

lemma stage_template_titles:
  "list_all (\<lambda>t. list_all (\<lambda>g. gt_title g \<noteq> ''Follow up on overdue customer action items''
                              \<and> gt_title g \<noteq> ''Deliver on our overdue commitments'')
                     (stageGoals t))
     STAGE_GOAL_TEMPLATES"
  by code_simp

lemma generateStageGoals_titles:
  assumes "g \<in> set (generateStageGoals ctx)"
  shows "g_title g \<noteq> ''Follow up on overdue customer action items''
         \<and> g_title g \<noteq> ''Deliver on our overdue commitments''"
proof (cases "find (\<lambda>t. list_ex (\<lambda>s. str_includes
                 (case pa_dealStage (ctx_account ctx) of Some x \<Rightarrow> toLowerCase x | None \<Rightarrow> ''unknown'') s)
                 (stages t)) STAGE_GOAL_TEMPLATES")
  case None
  with assms show ?thesis by (simp add: generateStageGoals_def Let_def)
next
  case (Some template)
  then have "template \<in> set STAGE_GOAL_TEMPLATES"
    by (auto simp: find_Some_iff)
  with stage_template_titles
  have t: "\<And>gt. gt \<in> set (stageGoals template) \<Longrightarrow>
             gt_title gt \<noteq> ''Follow up on overdue customer action items''
             \<and> gt_title gt \<noteq> ''Deliver on our overdue commitments''"
    by (simp add: list_all_iff)
  from assms Some obtain gt where "gt \<in> set (stageGoals template)" and "g_title g = gt_title gt"
    by (auto simp: generateStageGoals_def Let_def)
  with t show ?thesis by simp
qed

lemma generateRiskGoals_titles:
  assumes "g \<in> set (generateRiskGoals ctx)"
  shows "g_title g \<noteq> ''Follow up on overdue customer action items''
         \<and> g_title g \<noteq> ''Deliver on our overdue commitments''"
  using assms by (auto simp: generateRiskGoals_def riskGoals_def split: if_splits)

lemma generateStakeholderGoals_titles:
  assumes "g \<in> set (generateStakeholderGoals ctx)"
  shows "g_title g \<noteq> ''Follow up on overdue customer action items''
         \<and> g_title g \<noteq> ''Deliver on our overdue commitments''"
  using assms unfolding generateStakeholderGoals_def Let_def
  by (auto split: if_splits option.splits)

lemma generateActionItemGoals_no_overdue:
  assumes "list_all (\<lambda>i. ai_status i = Pending) (md_actionItems (ctx_mergedData ctx))"
  shows "map g_title (generateActionItemGoals ctx)
           = (if filter (\<lambda>i. ai_owner i = Theirs) (md_actionItems (ctx_mergedData ctx)) \<noteq> []
              then [''Check status on pending customer items''] else [])"
proof -
  let ?items = "md_actionItems (ctx_mergedData ctx)"
  from assms have a: "\<And>i. i \<in> set ?items \<Longrightarrow> ai_status i = Pending"
    by (simp add: list_all_iff)
  have o: "filter (\<lambda>i. ai_status i = Pending \<or> ai_status i = Overdue) ?items = ?items"
    using a by (simp add: filter_id_conv)
  have t: "filter (\<lambda>i. ai_status i = Overdue) (filter (\<lambda>i. ai_owner i = Theirs) ?items) = []"
    using a by (auto simp: filter_empty_conv)
  have u: "filter (\<lambda>i. ai_status i = Overdue) (filter (\<lambda>i. ai_owner i = Ours) ?items) = []"
    using a by (auto simp: filter_empty_conv)
  have p: "filter (\<lambda>i. ai_status i = Pending) (filter (\<lambda>i. ai_owner i = Theirs) ?items)
             = filter (\<lambda>i. ai_owner i = Theirs) ?items"
    by (rule filter_True) (simp add: a)
  show ?thesis
    unfolding generateActionItemGoals_def Let_def o t u p by simp
qed

lemma allGoals_no_overdue_titles:
  assumes "list_all (\<lambda>i. ai_status i = Pending) (md_actionItems (ctx_mergedData ctx))"
    and "g \<in> set (allGoals ctx)"
  shows "g_title g \<noteq> ''Follow up on overdue customer action items''
         \<and> g_title g \<noteq> ''Deliver on our overdue commitments''"
proof -
  from assms(2) have "g_title g \<in> set (map g_title (allGoals ctx))" by simp
  then have "g_title g \<in> set (map g_title (generateStageGoals ctx))
             \<or> g_title g \<in> set (map g_title (generateRiskGoals ctx))
             \<or> g_title g \<in> set (map g_title (generateActionItemGoals ctx))
             \<or> g_title g \<in> set (map g_title (generateStakeholderGoals ctx))"
    unfolding allGoals_def numberGoals_titles by auto
  moreover have "t \<noteq> ''Follow up on overdue customer action items''
                 \<and> t \<noteq> ''Deliver on our overdue commitments''"
    if "t \<in> set (map g_title (generateStageGoals ctx))" for t
    using that generateStageGoals_titles [of _ ctx] by auto
  moreover have "t \<noteq> ''Follow up on overdue customer action items''
                 \<and> t \<noteq> ''Deliver on our overdue commitments''"
    if "t \<in> set (map g_title (generateRiskGoals ctx))" for t
    using that generateRiskGoals_titles [of _ ctx] by auto
  moreover have "t \<noteq> ''Follow up on overdue customer action items''
                 \<and> t \<noteq> ''Deliver on our overdue commitments''"
    if "t \<in> set (map g_title (generateActionItemGoals ctx))" for t
    using that unfolding generateActionItemGoals_no_overdue [OF assms(1)]
    by (auto split: if_splits)
  moreover have "t \<noteq> ''Follow up on overdue customer action items''
                 \<and> t \<noteq> ''Deliver on our overdue commitments''"
    if "t \<in> set (map g_title (generateStakeholderGoals ctx))" for t
    using that generateStakeholderGoals_titles [of _ ctx] by auto
  ultimately show ?thesis by blast
qed

lemma followUp_points_no_overdue:
  assumes "list_all (\<lambda>i. ai_status i = Pending) (md_actionItems (ctx_mergedData ctx))"
    and "p \<in> set (generateTalkingPoints ctx)"
    and "tp_category p = ActionFollowUp"
  shows "tp_priority p = 3"
proof -
  from assms(2) have "(tp_category p, tp_point p, tp_priority p)
      \<in> set (map (\<lambda>p. (tp_category p, tp_point p, tp_priority p)) (generateTalkingPoints ctx))"
    by force
  then obtain q where q: "q \<in> set (allPoints ctx)"
      and c: "tp_category q = tp_category p" and n: "tp_priority q = tp_priority p"
    unfolding generateTalkingPoints_fields by auto
  from q c assms(3) have "q \<in> set (generateActionFollowUpPoints ctx)"
    unfolding allPoints_def
    using category_generateOpeners [of q ctx] category_generateValuePoints [of q ctx]
      category_generateNextStepsPoints [of q ctx]
    by (auto simp: generateGoalSupportPoints_def generateRiskMitigationPoints_def
        generateStakeholderPoints_def
        dest: category_goalSupportPoints category_riskMitigationPoints category_stakeholderPoints)
  then have "(tp_category q, tp_point q, tp_priority q)
      \<in> set (map (\<lambda>p. (tp_category p, tp_point p, tp_priority p)) (generateActionFollowUpPoints ctx))"
    by force
  then have "tp_priority q = 3"
    unfolding actionFollowUp_fields no_overdue_filter [OF assms(1)]
    by (auto split: if_splits)
  with n show ?thesis by simp
qed


lemma analyzeAccount_fields:
  "momentumScore (analyzeAccount now data options)
     = calculateMomentumScore now data (daysSinceLastContact (analyzeAccount now data options))"
  "risks (analyzeAccount now data options)
     = detectRisks now data (daysSinceLastContact (analyzeAccount now data options))
         (daysInStage (analyzeAccount now data options))"
  unfolding analyzeAccount_def Let_def by simp_all

lemma buildAccount_openActionItems:
  "ac_openActionItems (buildAccount now data analysis info) = pa_openActionItems (md_account data)"
  unfolding buildAccount_def applyAnalysisToAccount_def Let_def
  by (simp split: option.splits)

lemma assembleDossier_parts:
  assumes "assembleDossier rnd now context sources = Inr r"
  shows "\<exists>options. mergeAllData rnd (src_fireflies sources) (src_slack sources)
                      (src_calendar sources) options = Inr (ar_mergedData r)"
    and "ar_analysis r = analyzeAccount now (ar_mergedData r) emptyAnalysisOptions"
    and "ar_account r = buildAccount now (ar_mergedData r) (ar_analysis r) (src_companyInfo sources)"
    and "\<exists>ctx. ar_goals r = generateGoals ctx \<and> ctx_mergedData ctx = ar_mergedData r"
    and "\<exists>ctx. ar_talkingPoints r = generateTalkingPoints ctx
               \<and> ctx_mergedData ctx = ar_mergedData r"
  using assms unfolding assembleDossier_def Let_def
  by (auto split: sum.splits)

text \<open>
  Claim C10. In every result of \<open>assembleDossier\<close> every action item has the status
  \<open>pending\<close>: the merger creates each item as pending and the assembler does not run
  \<open>markOverdueItems\<close>. This holds for the action items of the merged bundle, for the
  open action items of its account and for the open action items of the account of the
  dossier. Hence no overdue rule fires in the pipeline: the momentum score is the score
  of the same bundle without any action item (the overdue deltas are 0), no overdue risk
  is among the risks, no overdue goal is among the goals, and every action follow-up
  talking point is the priority-3 count of pending items.
\<close>

theorem assembleDossier_items_stay_pending:
  assumes "assembleDossier rnd now context sources = Inr r"
  shows "list_all (\<lambda>i. ai_status i = Pending) (md_actionItems (ar_mergedData r))
   \<and> list_all (\<lambda>i. ai_status i = Pending) (pa_openActionItems (md_account (ar_mergedData r)))
   \<and> list_all (\<lambda>i. ai_status i = Pending) (ac_openActionItems (ar_account r))
   \<and> momentumScore (ar_analysis r)
       = calculateMomentumScore now ((ar_mergedData r)\<lparr> md_actionItems := [] \<rparr>)
           (daysSinceLastContact (ar_analysis r))
   \<and> ''risk-overdue-ours'' \<notin> set (map rk_id (risks (ar_analysis r)))
   \<and> ''risk-overdue-theirs'' \<notin> set (map rk_id (risks (ar_analysis r)))
   \<and> ''Follow up on overdue customer action items'' \<notin> set (map g_title (ar_goals r))
   \<and> ''Deliver on our overdue commitments'' \<notin> set (map g_title (ar_goals r))
   \<and> (\<forall>p \<in> set (ar_talkingPoints r). tp_category p = ActionFollowUp \<longrightarrow> tp_priority p = 3)"
proof -
  let ?md = "ar_mergedData r"
  from assembleDossier_parts(1) [OF assms] obtain options where
    m: "mergeAllData rnd (src_fireflies sources) (src_slack sources) (src_calendar sources) options
          = Inr ?md"
    by blast
  have pend: "list_all (\<lambda>i. ai_status i = Pending) (md_actionItems ?md)"
    and opn: "list_all (\<lambda>i. ai_status i = Pending) (pa_openActionItems (md_account ?md))"
    by (rule mergeAllData_all_pending [OF m])+
  have acc: "list_all (\<lambda>i. ai_status i = Pending) (ac_openActionItems (ar_account r))"
    unfolding assembleDossier_parts(3) [OF assms] buildAccount_openActionItems by (rule opn)
  have mom: "momentumScore (ar_analysis r)
       = calculateMomentumScore now (?md\<lparr> md_actionItems := [] \<rparr>)
           (daysSinceLastContact (ar_analysis r))"
    unfolding assembleDossier_parts(2) [OF assms] analyzeAccount_fields(1)
    by (rule calculateMomentumScore_no_overdue [OF pend])
  have rsk: "''risk-overdue-ours'' \<notin> set (map rk_id (risks (ar_analysis r)))
             \<and> ''risk-overdue-theirs'' \<notin> set (map rk_id (risks (ar_analysis r)))"
    unfolding assembleDossier_parts(2) [OF assms] analyzeAccount_fields(2)
    using detectRisks_no_overdue [OF pend] by fastforce
  from assembleDossier_parts(4) [OF assms] obtain gctx where
    g: "ar_goals r = generateGoals gctx" and gm: "ctx_mergedData gctx = ?md"
    by blast
  have gl: "''Follow up on overdue customer action items'' \<notin> set (map g_title (ar_goals r))
            \<and> ''Deliver on our overdue commitments'' \<notin> set (map g_title (ar_goals r))"
    unfolding g
    using allGoals_no_overdue_titles [of gctx] generateGoals_subset [of gctx] pend gm
    by fastforce
  from assembleDossier_parts(5) [OF assms] obtain tctx where
    t: "ar_talkingPoints r = generateTalkingPoints tctx" and tm: "ctx_mergedData tctx = ?md"
    by blast
  have tp: "\<forall>p \<in> set (ar_talkingPoints r). tp_category p = ActionFollowUp \<longrightarrow> tp_priority p = 3"
    unfolding t using followUp_points_no_overdue [of tctx] pend tm by auto
  from pend opn acc mom rsk gl tp show ?thesis by blast
qed

text \<open>
  A run ten days after the due date of both action items of a call: the overdue pass
  would mark both items overdue, but in the result of the pipeline they are pending.
\<close>

theorem assembleDossier_items_stay_pending_witness:
  "case assembleDossier (\<lambda>k. ''abc123'') (10 * msPerDay) exampleAssemblerContext dueItemsSources of
     Inl e \<Rightarrow> False
   | Inr r \<Rightarrow>
       map ai_dueDate (md_actionItems (ar_mergedData r)) = [Some 0, Some 0]
       \<and> map ai_status (markOverdueItems (10 * msPerDay) (md_actionItems (ar_mergedData r)))
           = [Overdue, Overdue]
       \<and> list_all (\<lambda>i. ai_status i = Pending) (md_actionItems (ar_mergedData r))
       \<and> ''risk-overdue-ours'' \<notin> set (map rk_id (risks (ar_analysis r)))
       \<and> ''Follow up on overdue customer action items'' \<notin> set (map g_title (ar_goals r))
       \<and> map tp_priority (filter (\<lambda>p. tp_category p = ActionFollowUp) (ar_talkingPoints r)) = [3]"
proof -
  let ?run = "assembleDossier (\<lambda>k. ''abc123'') (10 * msPerDay) exampleAssemblerContext dueItemsSources"
  have d: "case ?run of Inl e \<Rightarrow> False
           | Inr r \<Rightarrow>
               map ai_dueDate (md_actionItems (ar_mergedData r)) = [Some 0, Some 0]
               \<and> map ai_status (markOverdueItems (10 * msPerDay) (md_actionItems (ar_mergedData r)))
                   = [Overdue, Overdue]
               \<and> map tp_priority (filter (\<lambda>p. tp_category p = ActionFollowUp)
                                      (ar_talkingPoints r)) = [3]"
    by code_simp
  then obtain r where r: "?run = Inr r" by (cases ?run) auto
  from assembleDossier_items_stay_pending [OF r] d r show ?thesis by simp
qed

subsection \<open>Run-to-run reproducibility\<close>

text \<open>
  Claim C1. The claim asks that two runs of the pipeline on the same input, with the
  clock held fixed, give the same goals, down to the action-item ids the goals refer to.
  \<open>convertFirefliesActionItem\<close> ends each action-item id with a \<open>Math.random\<close> suffix,
  while every other id of the pipeline is built from record ids and counters. On the same
  sources and at the same clock, two runs that draw different suffixes return goals that
  refer to different action-item ids.
\<close>

theorem action_item_ids_differ_between_runs:
  "relatedActionItemIds
     (assembleDossier (\<lambda>k. ''abc123'') (10 * msPerDay) exampleAssemblerContext dueItemsSources)
     = [''ff-ai-t1-abc123'']
   \<and> relatedActionItemIds
       (assembleDossier (\<lambda>k. ''x7k2qp'') (10 * msPerDay) exampleAssemblerContext dueItemsSources)
     = [''ff-ai-t1-x7k2qp'']"
  by code_simp


end
